theory Spec2Isabelle
  imports Complex_Main
begin

section \<open>Dense matrices in column-major storage\<close>

text \<open>
  The spike-and-slab RBM keeps all its numbers in Armadillo matrices: a shape and a block
  of elements stored column by column. \<open>ElemType\<close> is \<open>double\<close> in the source; the
  embedding computes over \<^typ>\<open>real\<close>, so rounding, overflow to infinity and NaN are
  outside of it; a property that holds of the exact value and fails of the rounded one,
  such as a strict bound on a stored sigmoid, is not stated here. Sizes are \<open>size_t\<close> in the source and \<^typ>\<open>nat\<close> here: a buffer whose
  length wraps around 64 bits cannot be allocated.

  Armadillo raises \<open>std::logic_error\<close> when the shapes of the operands of a product or of
  an assignment into a sub-view disagree, and reading past a buffer is undefined. The
  operations below are total; the theorems state the shapes under which the calls conform.
\<close>

record mat =
  n_rows :: nat
  n_cols :: nat
  mem :: "real list"

definition n_elem :: "mat \<Rightarrow> nat" where
  "n_elem m = n_rows m * n_cols m"

definition elem :: "mat \<Rightarrow> nat \<Rightarrow> nat \<Rightarrow> real" where
  \<comment> \<open>\<open>m(r, c)\<close>\<close>
  "elem m r c = mem m ! (r + n_rows m * c)"

definition set_elem :: "mat \<Rightarrow> nat \<Rightarrow> real \<Rightarrow> mat" where
  \<comment> \<open>\<open>m(i) = x\<close>, linear indexing\<close>
  "set_elem m i x = m\<lparr>mem := (mem m)[i := x]\<rparr>"

definition set_size :: "mat \<Rightarrow> nat \<Rightarrow> nat \<Rightarrow> mat" where
  \<comment> \<open>\<open>m.set_size(r, c)\<close>: the memory is kept when the number of elements is unchanged,
      and is fresh, with unspecified contents, otherwise\<close>
  "set_size m r c =
     (if r * c = length (mem m) then m\<lparr>n_rows := r, n_cols := c\<rparr>
      else \<lparr>n_rows = r, n_cols = c, mem = replicate (r * c) undefined\<rparr>)"

definition fill_zeros :: "mat \<Rightarrow> mat" where
  \<comment> \<open>\<open>m.zeros()\<close>\<close>
  "fill_zeros m = m\<lparr>mem := replicate (length (mem m)) 0\<rparr>"

definition zeros :: "mat \<Rightarrow> nat \<Rightarrow> nat \<Rightarrow> mat" where
  \<comment> \<open>\<open>m.zeros(r, c)\<close>\<close>
  "zeros m r c = fill_zeros (set_size m r c)"

definition mat_t :: "mat \<Rightarrow> mat" where
  \<comment> \<open>\<open>A.t()\<close>\<close>
  "mat_t A = \<lparr>n_rows = n_cols A, n_cols = n_rows A,
     mem = map (\<lambda>k. elem A (k div n_cols A) (k mod n_cols A)) [0..<n_cols A * n_rows A]\<rparr>"

definition mat_mul :: "mat \<Rightarrow> mat \<Rightarrow> mat" where
  \<comment> \<open>\<open>A * B\<close>\<close>
  "mat_mul A B = \<lparr>n_rows = n_rows A, n_cols = n_cols B,
     mem = map (\<lambda>k. \<Sum>j = 0..<n_cols A. elem A (k mod n_rows A) j * elem B j (k div n_rows A))
             [0..<n_rows A * n_cols B]\<rparr>"

definition scal :: "real \<Rightarrow> mat \<Rightarrow> mat" where
  \<comment> \<open>\<open>c * A\<close>\<close>
  "scal c A = A\<lparr>mem := map (\<lambda>x. c * x) (mem A)\<rparr>"

definition scal_r :: "mat \<Rightarrow> real \<Rightarrow> mat" where
  \<comment> \<open>\<open>A * c\<close>\<close>
  "scal_r A c = A\<lparr>mem := map (\<lambda>x. x * c) (mem A)\<rparr>"

definition mat_add :: "mat \<Rightarrow> mat \<Rightarrow> mat" where
  \<comment> \<open>\<open>A + B\<close>\<close>
  "mat_add A B = A\<lparr>mem := map2 (+) (mem A) (mem B)\<rparr>"

definition as_scalar :: "mat \<Rightarrow> real" where
  \<comment> \<open>\<open>arma::as_scalar\<close> of a 1 x 1 matrix\<close>
  "as_scalar A = mem A ! 0"

definition square :: "mat \<Rightarrow> mat" where
  \<comment> \<open>\<open>arma::square\<close>, element by element\<close>
  "square A = A\<lparr>mem := map (\<lambda>x. x * x) (mem A)\<rparr>"

definition accu :: "mat \<Rightarrow> real" where
  \<comment> \<open>\<open>arma::accu\<close>\<close>
  "accu A = sum_list (mem A)"

definition norm2 :: "mat \<Rightarrow> real" where
  \<comment> \<open>\<open>arma::norm(A, 2)\<close> of a vector\<close>
  "norm2 A = sqrt (sum_list (map (\<lambda>x. x * x) (mem A)))"

definition col :: "mat \<Rightarrow> nat \<Rightarrow> mat" where
  \<comment> \<open>\<open>A.col(i)\<close>, read\<close>
  "col A i = \<lparr>n_rows = n_rows A, n_cols = 1,
     mem = take (n_rows A) (drop (n_rows A * i) (mem A))\<rparr>"

subsection \<open>Views into a flat buffer\<close>

text \<open>
  \<open>Mat(ptr + off, r, c, false, false)\<close> and the corresponding cube constructor make an
  object that owns no memory: it reads and writes the buffer it points into. Such a view
  is kept as its offset and shape; it is read with \<open>view\<close> and written with \<open>store\<close>
  against the buffer current at that moment.
\<close>

record aux =
  v_off :: nat
  v_rows :: nat
  v_cols :: nat
  v_slices :: nat

definition aux_n_elem :: "aux \<Rightarrow> nat" where
  "aux_n_elem a = v_rows a * v_cols a * v_slices a"

definition view :: "real list \<Rightarrow> nat \<Rightarrow> nat \<Rightarrow> nat \<Rightarrow> mat" where
  "view buf off r c = \<lparr>n_rows = r, n_cols = c, mem = take (r * c) (drop off buf)\<rparr>"

definition store :: "real list \<Rightarrow> nat \<Rightarrow> real list \<Rightarrow> real list" where
  "store buf off vals =
     map (\<lambda>k. if off \<le> k \<and> k < off + length vals then vals ! (k - off) else buf ! k)
       [0..<length buf]"

definition slice_of :: "real list \<Rightarrow> aux \<Rightarrow> nat \<Rightarrow> mat" where
  \<comment> \<open>\<open>cube.slice(i)\<close>, read\<close>
  "slice_of buf a i = view buf (v_off a + v_rows a * v_cols a * i) (v_rows a) (v_cols a)"

definition assign_slice :: "mat \<Rightarrow> aux \<Rightarrow> nat \<Rightarrow> mat \<Rightarrow> mat" where
  \<comment> \<open>\<open>cube.slice(i) = X\<close> for a cube view into \<open>buf\<close>\<close>
  "assign_slice buf a i X =
     buf\<lparr>mem := store (mem buf) (v_off a + v_rows a * v_cols a * i) (mem X)\<rparr>"

definition assign_aux :: "mat \<Rightarrow> aux \<Rightarrow> mat \<Rightarrow> mat" where
  \<comment> \<open>\<open>viewMat = X\<close> for a matrix view into \<open>buf\<close>: the view's memory is written when
      \<open>X\<close> has as many elements as the view; otherwise the view takes memory of its own
      and the buffer stays as it is\<close>
  "assign_aux buf a X =
     (if length (mem X) = aux_n_elem a then buf\<lparr>mem := store (mem buf) (v_off a) (mem X)\<rparr>
      else buf)"

definition write_back :: "mat \<Rightarrow> aux \<Rightarrow> mat \<Rightarrow> mat" where
  \<comment> \<open>a view into \<open>buf\<close> was passed as the output parameter of a call that wrote its
      elements in place; \<open>X\<close> is the view after the call\<close>
  "write_back buf a X = buf\<lparr>mem := store (mem buf) (v_off a) (mem X)\<rparr>"

definition set_col :: "mat \<Rightarrow> nat \<Rightarrow> mat \<Rightarrow> mat" where
  \<comment> \<open>\<open>A.col(i) = X\<close>\<close>
  "set_col A i X = A\<lparr>mem := store (mem A) (n_rows A * i) (mem X)\<rparr>"

section \<open>Loops\<close>

text \<open>\<open>for (size_t i = 0; i < n; i++) st = body i st\<close>\<close>

primrec for_loop :: "nat \<Rightarrow> (nat \<Rightarrow> 'a \<Rightarrow> 'a) \<Rightarrow> 'a \<Rightarrow> 'a" where
  "for_loop 0 body st = st"
| "for_loop (Suc n) body st = body n (for_loop n body st)"

section \<open>Collaborators of the RBM\<close>

definition LogisticFunction_Fn :: "real \<Rightarrow> real" where
  \<comment> \<open>Modelled from the spec: \<open>LogisticFunction::Fn\<close> is declared in
      \<open>activation_functions/logistic_function.hpp\<close>, which is not among the sources; the spec
      calls it the logistic sigmoid.\<close>
  "LogisticFunction_Fn x = 1 / (1 + exp (- x))"

definition SoftplusFunction_Fn :: "real \<Rightarrow> real" where
  \<comment> \<open>Modelled from the spec: \<open>SoftplusFunction::Fn\<close> is declared in
      \<open>activation_functions/softplus_function.hpp\<close>, which is not among the sources; the spec
      gives \<open>log(1 + e^x)\<close>.\<close>
  "SoftplusFunction_Fn x = ln (1 + exp x)"

text \<open>
  \<open>math::RandBernoulli\<close> and \<open>math::RandNormal\<close> draw from a global generator. They are
  parameters of the embedding: each takes the generator's state and returns the draw with
  the next state.
\<close>

record 'g random_source =
  RandBernoulli :: "real \<Rightarrow> 'g \<Rightarrow> real \<times> 'g"
  RandNormal :: "real \<Rightarrow> real \<Rightarrow> 'g \<Rightarrow> real \<times> 'g"

section \<open>The spike-and-slab RBM\<close>

text \<open>
  The members of \<open>RBM\<close> that the spike-and-slab policy touches. \<open>weight\<close> is a member
  declared in \<open>rbm.hpp\<close>; \<open>Reset\<close> reads its \<open>n_elem\<close> and nothing here assigns it.
\<close>

record rbm =
  visibleSize :: nat
  hiddenSize :: nat
  poolSize :: nat
  batchSize :: nat
  slabPenalty :: real
  radius :: real
  weight :: mat
  parameter :: mat
  positiveGradient :: mat
  negativeGradient :: mat
  tempNegativeGradient :: mat
  negativeSamples :: mat
  visibleMean :: mat
  spikeMean :: mat
  spikeSamples :: mat
  slabMean :: mat
  weightCube :: aux
  spikeBias :: aux
  visiblePenalty :: aux
  reset :: bool

definition shape_of :: "rbm \<Rightarrow> nat" where
  \<comment> \<open>the local \<open>shape\<close> of \<open>Reset\<close>\<close>
  "shape_of s = (visibleSize s * hiddenSize s * poolSize s) + visibleSize s + hiddenSize s"

definition Reset :: "(mat \<Rightarrow> nat \<Rightarrow> nat \<Rightarrow> mat) \<Rightarrow> rbm \<Rightarrow> rbm" where
  \<comment> \<open>the first argument is \<open>initializeRule.Initialize\<close>\<close>
  "Reset Initialize s =
     (let shape = shape_of s;
          parameter1 = set_size (parameter s) shape 1;
          positiveGradient1 = set_size (positiveGradient s) shape 1;
          negativeGradient1 = set_size (negativeGradient s) shape 1;
          tempNegativeGradient1 = set_size (tempNegativeGradient s) shape 1;
          negativeSamples1 = set_size (negativeSamples s) (visibleSize s) (batchSize s);
          visibleMean1 = set_size (visibleMean s) (visibleSize s) 1;
          spikeMean1 = set_size (spikeMean s) (hiddenSize s) 1;
          spikeSamples1 = set_size (spikeSamples s) (hiddenSize s) 1;
          slabMean1 = set_size (slabMean s) (poolSize s) (hiddenSize s);
          weightCube1 = \<lparr>v_off = 0, v_rows = visibleSize s, v_cols = poolSize s,
                         v_slices = hiddenSize s\<rparr>;
          spikeBias1 = \<lparr>v_off = n_elem (weight s), v_rows = hiddenSize s, v_cols = 1,
                        v_slices = 1\<rparr>;
          visiblePenalty1 = \<lparr>v_off = n_elem (weight s) + aux_n_elem spikeBias1, v_rows = 1,
                             v_cols = 1, v_slices = 1\<rparr>;
          parameter2 = fill_zeros parameter1;
          positiveGradient2 = fill_zeros positiveGradient1;
          negativeGradient2 = fill_zeros negativeGradient1;
          tempNegativeGradient2 = fill_zeros tempNegativeGradient1;
          parameter3 = Initialize parameter2 (n_elem parameter2) 1
      in s\<lparr>parameter := parameter3,
           positiveGradient := positiveGradient2,
           negativeGradient := negativeGradient2,
           tempNegativeGradient := tempNegativeGradient2,
           negativeSamples := negativeSamples1,
           visibleMean := visibleMean1,
           spikeMean := spikeMean1,
           spikeSamples := spikeSamples1,
           slabMean := slabMean1,
           weightCube := weightCube1,
           spikeBias := spikeBias1,
           visiblePenalty := visiblePenalty1,
           reset := True\<rparr>)"

definition slice :: "rbm \<Rightarrow> nat \<Rightarrow> mat" where
  \<comment> \<open>\<open>weightCube.slice(i)\<close>\<close>
  "slice s i = slice_of (mem (parameter s)) (weightCube s) i"

definition spikeBias_at :: "rbm \<Rightarrow> nat \<Rightarrow> real" where
  \<comment> \<open>\<open>spikeBias(i)\<close>\<close>
  "spikeBias_at s i = mem (parameter s) ! (v_off (spikeBias s) + i)"

definition visiblePenalty_at :: "rbm \<Rightarrow> nat \<Rightarrow> real" where
  \<comment> \<open>\<open>visiblePenalty(i)\<close>\<close>
  "visiblePenalty_at s i = mem (parameter s) ! (v_off (visiblePenalty s) + i)"

definition FreeEnergy :: "rbm \<Rightarrow> mat \<Rightarrow> real" where
  "FreeEnergy s input =
     (let freeEnergy0 =
            0.5 * as_scalar (mat_mul (scal (visiblePenalty_at s 0) (mat_t input)) input);
          freeEnergy1 = freeEnergy0 -
            0.5 * real (hiddenSize s) * real (poolSize s) * ln ((2.0 * pi) / slabPenalty s)
      in for_loop (hiddenSize s)
           (\<lambda>i freeEnergy.
              let sum = accu (square (mat_mul (mat_t input) (slice s i))) /
                        (2.0 * slabPenalty s)
              in freeEnergy - SoftplusFunction_Fn (spikeBias_at s i - sum))
           freeEnergy1)"

definition SpikeMean :: "rbm \<Rightarrow> mat \<Rightarrow> mat \<Rightarrow> mat" where
  \<comment> \<open>the last argument is the output parameter \<open>spikeMean\<close>; its new value is returned\<close>
  "SpikeMean s visible out =
     for_loop (hiddenSize s)
       (\<lambda>i out. set_elem out i
          (LogisticFunction_Fn (0.5 * (1.0 / slabPenalty s) *
             as_scalar (mat_mul (mat_mul (mat_mul (mat_t visible) (slice s i))
                                   (mat_t (slice s i))) visible) +
             spikeBias_at s i)))
       out"

definition SampleSpike ::
  "'g random_source \<Rightarrow> rbm \<Rightarrow> mat \<Rightarrow> mat \<Rightarrow> 'g \<Rightarrow> mat \<times> 'g" where
  "SampleSpike rs s mean spike g =
     for_loop (hiddenSize s)
       (\<lambda>i (spike, g). let (x, g') = RandBernoulli rs (mem mean ! i) g
                       in (set_elem spike i x, g'))
       (spike, g)"

definition SlabMean :: "rbm \<Rightarrow> mat \<Rightarrow> mat \<Rightarrow> mat \<Rightarrow> mat" where
  "SlabMean s visible spike out =
     for_loop (hiddenSize s)
       (\<lambda>i out. set_col out i
          (mat_mul (scal ((1.0 / slabPenalty s) * mem spike ! i) (mat_t (slice s i))) visible))
       out"

definition VisibleMean :: "rbm \<Rightarrow> mat \<Rightarrow> mat \<Rightarrow> mat" where
  "VisibleMean s input out =
     (let output0 = zeros out (visibleSize s) 1;
          spike = view (mem input) 0 (hiddenSize s) 1;
          slab = view (mem input) (hiddenSize s) (poolSize s) (hiddenSize s);
          output1 = for_loop (hiddenSize s)
            (\<lambda>i output. mat_add output
               (scal_r (mat_mul (slice s i) (col slab i)) (mem spike ! i)))
            output0
      in scal (1.0 / visiblePenalty_at s 0) output1)"

definition HiddenMean ::
  "'g random_source \<Rightarrow> rbm \<Rightarrow> mat \<Rightarrow> mat \<Rightarrow> 'g \<Rightarrow> mat \<times> rbm \<times> 'g" where
  "HiddenMean rs s input out g =
     (let output0 = set_size out (hiddenSize s + poolSize s * hiddenSize s) 1;
          spike = \<lparr>v_off = 0, v_rows = hiddenSize s, v_cols = 1, v_slices = 1\<rparr>;
          slab = \<lparr>v_off = hiddenSize s, v_rows = poolSize s, v_cols = hiddenSize s,
                  v_slices = 1\<rparr>;
          output1 = write_back output0 spike
            (SpikeMean s input (view (mem output0) (v_off spike) (v_rows spike) (v_cols spike)));
          (spikeSamples1, g1) =
            SampleSpike rs s (view (mem output1) (v_off spike) (v_rows spike) (v_cols spike))
              (spikeSamples s) g;
          output2 = write_back output1 slab
            (SlabMean s input spikeSamples1
               (view (mem output1) (v_off slab) (v_rows slab) (v_cols slab)))
      in (output2, s\<lparr>spikeSamples := spikeSamples1\<rparr>, g1))"

definition Phase ::
  "'g random_source \<Rightarrow> rbm \<Rightarrow> mat \<Rightarrow> mat \<Rightarrow> 'g \<Rightarrow> mat \<times> rbm \<times> 'g" where
  "Phase rs s input gradient g =
     (let weightGrad = \<lparr>v_off = 0, v_rows = visibleSize s, v_cols = poolSize s,
                        v_slices = hiddenSize s\<rparr>;
          spikeBiasGrad = \<lparr>v_off = aux_n_elem weightGrad, v_rows = hiddenSize s, v_cols = 1,
                           v_slices = 1\<rparr>;
          visiblePenaltyGrad = \<lparr>v_off = aux_n_elem weightGrad + aux_n_elem spikeBiasGrad,
                                v_rows = 1, v_cols = 1, v_slices = 1\<rparr>;
          spikeMean1 = SpikeMean s input (spikeMean s);
          (spikeSamples1, g1) = SampleSpike rs s spikeMean1 (spikeSamples s) g;
          slabMean1 = SlabMean s input spikeSamples1 (slabMean s);
          gradient1 = for_loop (hiddenSize s)
            (\<lambda>i gradient. assign_slice gradient weightGrad i
               (scal_r (mat_mul input (mat_t (col slabMean1 i))) (mem spikeMean1 ! i)))
            gradient;
          gradient2 = assign_aux gradient1 spikeBiasGrad spikeMean1;
          gradient3 = assign_aux gradient2 visiblePenaltyGrad
            (mat_mul (scal (- 0.5) (mat_t input)) input)
      in (gradient3,
          s\<lparr>spikeMean := spikeMean1, spikeSamples := spikeSamples1, slabMean := slabMean1\<rparr>,
          g1))"

definition numMaxTrials :: nat where
  \<comment> \<open>the local constant of \<open>SampleVisible\<close>\<close>
  "numMaxTrials = 10"

definition draw_visible :: "'g random_source \<Rightarrow> rbm \<Rightarrow> mat \<times> 'g \<Rightarrow> mat \<times> 'g" where
  \<comment> \<open>the inner loop of \<open>SampleVisible\<close>: one attempt\<close>
  "draw_visible rs s =
     for_loop (visibleSize s)
       (\<lambda>i (output, g).
          let (x, g') = RandNormal rs (mem (visibleMean s) ! i) (1.0 / visiblePenalty_at s 0) g
          in (set_elem output i x, g'))"

function trials :: "'g random_source \<Rightarrow> rbm \<Rightarrow> nat \<Rightarrow> mat \<times> 'g \<Rightarrow> nat \<times> mat \<times> 'g" where
  \<comment> \<open>the outer loop of \<open>SampleVisible\<close> from counter \<open>k\<close>, with its \<open>break\<close>; the result
      is the counter after the loop with the output and the generator\<close>
  "trials rs s k og =
     (if k < numMaxTrials then
        (let og' = draw_visible rs s og
         in if norm2 (fst og') < radius s then (k, og') else trials rs s (Suc k) og')
      else (k, og))"
  by pat_completeness auto
termination
  by (relation "measure (\<lambda>(rs, s, k, og). numMaxTrials - k)") auto

text \<open>
  \<open>Log::Warn\<close> is a global sink; the warnings are threaded as a list, one entry (the
  norm that the message prints) for each message.
\<close>

definition SampleVisible ::
  "'g random_source \<Rightarrow> rbm \<Rightarrow> mat \<Rightarrow> mat \<Rightarrow> 'g \<Rightarrow> real list \<Rightarrow> mat \<times> rbm \<times> 'g \<times> real list" where
  "SampleVisible rs s input out g warn =
     (let visibleMean1 = VisibleMean s input (visibleMean s);
          s1 = s\<lparr>visibleMean := visibleMean1\<rparr>;
          output0 = set_size out (visibleSize s) 1;
          (k, output1, g1) = trials rs s1 0 (output0, g)
      in if k = numMaxTrials then (output1, s1, g1, warn @ [norm2 output1])
         else (output1, s1, g1, warn))"

section \<open>Shapes and the initialized store\<close>

text \<open>
  A matrix has a shape when its memory holds exactly its rows times its columns.
\<close>

definition has_shape :: "mat \<Rightarrow> nat \<Rightarrow> nat \<Rightarrow> bool" where
  "has_shape m r c \<longleftrightarrow> n_rows m = r \<and> n_cols m = c \<and> length (mem m) = r * c"

text \<open>
  The state in which \<open>Reset\<close> leaves the store: the flag is set, the parameter buffer
  has \<open>shape\<close> elements, the three views are the ones that \<open>Reset\<close> constructs and lie
  inside the buffer, and the work matrices have the sizes that \<open>Reset\<close> gives them. The
  other operations are stated for such a state.
\<close>

definition initialized :: "rbm \<Rightarrow> bool" where
  "initialized s \<longleftrightarrow>
     reset s \<and>
     has_shape (parameter s) (shape_of s) 1 \<and>
     weightCube s = \<lparr>v_off = 0, v_rows = visibleSize s, v_cols = poolSize s,
                      v_slices = hiddenSize s\<rparr> \<and>
     spikeBias s = \<lparr>v_off = n_elem (weight s), v_rows = hiddenSize s, v_cols = 1,
                     v_slices = 1\<rparr> \<and>
     visiblePenalty s = \<lparr>v_off = n_elem (weight s) + hiddenSize s, v_rows = 1, v_cols = 1,
                          v_slices = 1\<rparr> \<and>
     n_elem (weight s) + hiddenSize s < shape_of s \<and>
     has_shape (visibleMean s) (visibleSize s) 1 \<and>
     has_shape (spikeMean s) (hiddenSize s) 1 \<and>
     has_shape (spikeSamples s) (hiddenSize s) 1 \<and>
     has_shape (slabMean s) (poolSize s) (hiddenSize s)"

definition aux_range :: "aux \<Rightarrow> nat set" where
  \<comment> \<open>the indices of the buffer that a view reads and writes\<close>
  "aux_range a = {v_off a..<v_off a + aux_n_elem a}"

section \<open>Reference definitions for the statements\<close>

text \<open>
  Two definitions that follow the words of the specification, to compare the code with:
  scaling the slab part of a hidden vector, and drawing one normal sample for each entry of
  a vector of means.
\<close>

definition scale_slab :: "rbm \<Rightarrow> real \<Rightarrow> mat \<Rightarrow> mat" where
  \<comment> \<open>a hidden vector (spike first, then slab) with every slab entry multiplied by \<open>c\<close>\<close>
  "scale_slab s c hidden =
     hidden\<lparr>mem := take (hiddenSize s) (mem hidden) @
                    map (\<lambda>x. c * x) (drop (hiddenSize s) (mem hidden))\<rparr>"

fun normal_draws :: "'g random_source \<Rightarrow> real list \<Rightarrow> real \<Rightarrow> 'g \<Rightarrow> real list \<times> 'g" where
  \<comment> \<open>one draw from \<open>Normal(m, var)\<close> for each mean \<open>m\<close> of the list, in order\<close>
  "normal_draws rs [] var g = ([], g)"
| "normal_draws rs (m # ms) var g =
     (let (x, g1) = RandNormal rs m var g;
          (xs, g2) = normal_draws rs ms var g1
      in (x # xs, g2))"

section \<open>Example configurations\<close>

text \<open>
  The configuration of the specification's regression example: \<open>V = 2\<close>, \<open>H = 2\<close>,
  \<open>P = 1\<close>, weight slices \<open>[1, 0]\<close> and \<open>[0, 1]\<close>, zero spike bias, visible penalty 1 and
  slab penalty 1, with the visible vector \<open>[1, 1]\<close>; once as an initialized store and once
  before \<open>Reset\<close> has run.
\<close>

definition example_rbm :: rbm where
  "example_rbm =
     \<lparr>visibleSize = 2, hiddenSize = 2, poolSize = 1, batchSize = 1,
      slabPenalty = 1, radius = 2,
      weight = \<lparr>n_rows = 2, n_cols = 2, mem = [0, 0, 0, 0]\<rparr>,
      parameter = \<lparr>n_rows = 8, n_cols = 1, mem = [1, 0, 0, 1, 0, 0, 1, 0]\<rparr>,
      positiveGradient = \<lparr>n_rows = 8, n_cols = 1, mem = [0, 0, 0, 0, 0, 0, 0, 0]\<rparr>,
      negativeGradient = \<lparr>n_rows = 8, n_cols = 1, mem = [0, 0, 0, 0, 0, 0, 0, 0]\<rparr>,
      tempNegativeGradient = \<lparr>n_rows = 8, n_cols = 1, mem = [0, 0, 0, 0, 0, 0, 0, 0]\<rparr>,
      negativeSamples = \<lparr>n_rows = 2, n_cols = 1, mem = [0, 0]\<rparr>,
      visibleMean = \<lparr>n_rows = 2, n_cols = 1, mem = [0, 0]\<rparr>,
      spikeMean = \<lparr>n_rows = 2, n_cols = 1, mem = [0, 0]\<rparr>,
      spikeSamples = \<lparr>n_rows = 2, n_cols = 1, mem = [0, 0]\<rparr>,
      slabMean = \<lparr>n_rows = 1, n_cols = 2, mem = [0, 0]\<rparr>,
      weightCube = \<lparr>v_off = 0, v_rows = 2, v_cols = 1, v_slices = 2\<rparr>,
      spikeBias = \<lparr>v_off = 4, v_rows = 2, v_cols = 1, v_slices = 1\<rparr>,
      visiblePenalty = \<lparr>v_off = 6, v_rows = 1, v_cols = 1, v_slices = 1\<rparr>,
      reset = True\<rparr>"

definition example_visible :: mat where
  "example_visible = \<lparr>n_rows = 2, n_cols = 1, mem = [1, 1]\<rparr>"

definition example_spike :: mat where
  "example_spike = \<lparr>n_rows = 2, n_cols = 1, mem = [0, 1]\<rparr>"

definition example_hidden :: mat where
  "example_hidden = \<lparr>n_rows = 4, n_cols = 1, mem = [1, 1, 2, 3]\<rparr>"

definition example_gradient :: mat where
  "example_gradient = \<lparr>n_rows = 8, n_cols = 1, mem = [0, 0, 0, 0, 0, 0, 0, 9]\<rparr>"

definition empty_mat :: mat where
  "empty_mat = \<lparr>n_rows = 0, n_cols = 0, mem = []\<rparr>"

definition fresh_rbm :: rbm where
  \<comment> \<open>an RBM with \<open>V = 2\<close>, \<open>H = 2\<close>, \<open>P = 1\<close> on which \<open>Reset\<close> has not run; \<open>weight\<close>
      has \<open>V P H = 4\<close> elements\<close>
  "fresh_rbm =
     \<lparr>visibleSize = 2, hiddenSize = 2, poolSize = 1, batchSize = 1,
      slabPenalty = 1, radius = 2,
      weight = \<lparr>n_rows = 2, n_cols = 2, mem = [0, 0, 0, 0]\<rparr>,
      parameter = empty_mat, positiveGradient = empty_mat, negativeGradient = empty_mat,
      tempNegativeGradient = empty_mat, negativeSamples = empty_mat,
      visibleMean = empty_mat, spikeMean = empty_mat, spikeSamples = empty_mat,
      slabMean = empty_mat,
      weightCube = \<lparr>v_off = 0, v_rows = 0, v_cols = 0, v_slices = 0\<rparr>,
      spikeBias = \<lparr>v_off = 0, v_rows = 0, v_cols = 0, v_slices = 0\<rparr>,
      visiblePenalty = \<lparr>v_off = 0, v_rows = 0, v_cols = 0, v_slices = 0\<rparr>,
      reset = False\<rparr>"

definition keep_init :: "mat \<Rightarrow> nat \<Rightarrow> nat \<Rightarrow> mat" where
  \<comment> \<open>an initializer for the examples: it leaves the zeroed buffer as it is\<close>
  "keep_init W r c = W"

definition const_source :: "unit random_source" where
  \<comment> \<open>a random source for the examples: every Bernoulli draw is 1, every normal draw
      is its mean\<close>
  "const_source = \<lparr>RandBernoulli = (\<lambda>p g. (1, g)), RandNormal = (\<lambda>m v g. (m, g))\<rparr>"

definition zero_source :: "unit random_source" where
  \<comment> \<open>a second random source for the examples: every Bernoulli draw is 0\<close>
  "zero_source = \<lparr>RandBernoulli = (\<lambda>p g. (0, g)), RandNormal = (\<lambda>m v g. (m, g))\<rparr>"

section \<open>Matrix and buffer lemmas\<close>

lemma idx_less: "r < R \<Longrightarrow> c < C \<Longrightarrow> r + R * c < R * (C::nat)"
proof -
  assume a: "r < R" "c < C"
  have "r + R * c < R + R * c" using a by simp
  also have "\<dots> = R * Suc c" by simp
  also have "\<dots> \<le> R * C" using a by (intro mult_le_mono2) simp
  finally show ?thesis .
qed

lemma elem_view:
  "r < R \<Longrightarrow> c < C \<Longrightarrow> off + R * C \<le> length buf \<Longrightarrow>
   elem (view buf off R C) r c = buf ! (off + (r + R * c))"
  using idx_less[of r R c C] by (simp add: elem_def view_def)

lemma shape_view [simp]:
  "n_rows (view buf off R C) = R" "n_cols (view buf off R C) = C"
  by (simp_all add: view_def)

lemma length_view: "off + R * C \<le> length buf \<Longrightarrow> length (mem (view buf off R C)) = R * C"
  by (simp add: view_def)

lemma shape_mat_mul [simp]:
  "n_rows (mat_mul A B) = n_rows A" "n_cols (mat_mul A B) = n_cols B"
  "length (mem (mat_mul A B)) = n_rows A * n_cols B"
  by (simp_all add: mat_mul_def)

lemma shape_mat_t [simp]:
  "n_rows (mat_t A) = n_cols A" "n_cols (mat_t A) = n_rows A"
  "length (mem (mat_t A)) = n_cols A * n_rows A"
  by (simp_all add: mat_t_def)

lemma nth_mat_mul:
  "k < n_rows A * n_cols B \<Longrightarrow>
   mem (mat_mul A B) ! k =
     (\<Sum>j = 0..<n_cols A. elem A (k mod n_rows A) j * elem B j (k div n_rows A))"
  by (simp add: mat_mul_def)

lemma elem_mat_mul:
  "r < n_rows A \<Longrightarrow> c < n_cols B \<Longrightarrow>
   elem (mat_mul A B) r c = (\<Sum>j = 0..<n_cols A. elem A r j * elem B j c)"
  unfolding elem_def[of "mat_mul A B" r c]
  using idx_less[of r "n_rows A" c "n_cols B"]
  by (simp add: nth_mat_mul)

lemma nth_mat_t:
  "k < n_cols A * n_rows A \<Longrightarrow>
   mem (mat_t A) ! k = elem A (k div n_cols A) (k mod n_cols A)"
  by (simp add: mat_t_def)

lemma elem_mat_t:
  "r < n_cols A \<Longrightarrow> c < n_rows A \<Longrightarrow> elem (mat_t A) r c = elem A c r"
  unfolding elem_def[of "mat_t A" r c]
  using idx_less[of r "n_cols A" c "n_rows A"]
  by (simp add: nth_mat_t)

lemma shape_scal [simp]:
  "n_rows (scal c A) = n_rows A" "n_cols (scal c A) = n_cols A"
  "length (mem (scal c A)) = length (mem A)"
  "n_rows (scal_r A c) = n_rows A" "n_cols (scal_r A c) = n_cols A"
  "length (mem (scal_r A c)) = length (mem A)"
  by (simp_all add: scal_def scal_r_def)

lemma elem_scal:
  "r + n_rows A * c < length (mem A) \<Longrightarrow> elem (scal x A) r c = x * elem A r c"
  by (simp add: elem_def scal_def)

lemma length_store [simp]: "length (store buf off vals) = length buf"
  by (simp add: store_def)

lemma nth_store:
  "k < length buf \<Longrightarrow>
   store buf off vals ! k =
     (if off \<le> k \<and> k < off + length vals then vals ! (k - off) else buf ! k)"
  by (simp add: store_def)

lemma shape_set_elem [simp]:
  "n_rows (set_elem m i x) = n_rows m" "n_cols (set_elem m i x) = n_cols m"
  "length (mem (set_elem m i x)) = length (mem m)"
  by (simp_all add: set_elem_def)

lemma nth_set_elem:
  "k < length (mem m) \<Longrightarrow> mem (set_elem m i x) ! k = (if k = i then x else mem m ! k)"
  by (simp add: set_elem_def nth_list_update)

lemma for_loop_set_elem_shape [simp]:
  "n_rows (for_loop n (\<lambda>i out. set_elem out i (f i)) out) = n_rows out"
  "n_cols (for_loop n (\<lambda>i out. set_elem out i (f i)) out) = n_cols out"
  "length (mem (for_loop n (\<lambda>i out. set_elem out i (f i)) out)) = length (mem out)"
  by (induction n) simp_all

lemma for_loop_set_elem_nth:
  "k < length (mem out) \<Longrightarrow>
   mem (for_loop n (\<lambda>i out. set_elem out i (f i)) out) ! k =
     (if k < n then f k else mem out ! k)"
  by (induction n) (auto simp: nth_set_elem less_Suc_eq)

lemma for_loop_minus:
  "for_loop n (\<lambda>i (acc::real). acc - f i) a = a - (\<Sum>i = 0..<n. f i)"
  by (induction n) simp_all

lemma slice_bound:
  "h < H \<Longrightarrow> V * P * h + V * P \<le> V * P * (H::nat)"
proof -
  assume "h < H"
  then have "Suc h \<le> H" by simp
  then have "V * P * Suc h \<le> V * P * H" by (rule mult_le_mono2)
  then show ?thesis by simp
qed

lemma shape_slice [simp]:
  "initialized s \<Longrightarrow> n_rows (slice s h) = visibleSize s"
  "initialized s \<Longrightarrow> n_cols (slice s h) = poolSize s"
  by (simp_all add: slice_def slice_of_def initialized_def)

lemma elem_slice:
  assumes "initialized s" "h < hiddenSize s" "v < visibleSize s" "p < poolSize s"
  shows "elem (slice s h) v p =
         mem (parameter s) ! (v + visibleSize s * p + visibleSize s * poolSize s * h)"
proof -
  have "visibleSize s * poolSize s * h + visibleSize s * poolSize s
          \<le> visibleSize s * poolSize s * hiddenSize s"
    using assms(2) by (rule slice_bound)
  also have "\<dots> \<le> length (mem (parameter s))"
    using assms(1) by (simp add: initialized_def has_shape_def shape_of_def mult.assoc mult.commute)
  finally have "elem (view (mem (parameter s)) (visibleSize s * poolSize s * h)
                   (visibleSize s) (poolSize s)) v p =
        mem (parameter s) ! (visibleSize s * poolSize s * h + (v + visibleSize s * p))"
    using assms(3,4) by (intro elem_view) simp_all
  then show ?thesis
    using assms(1) by (simp add: slice_def slice_of_def initialized_def add.commute)
qed

lemma as_scalar_elem: "as_scalar A = elem A 0 0"
  by (simp add: as_scalar_def elem_def)

lemma elem_colvec: "elem x i 0 = mem x ! i"
  by (simp add: elem_def)

lemma quad_form:
  assumes "initialized s" "has_shape visible (visibleSize s) 1" "h < hiddenSize s"
  shows "as_scalar (mat_mul (mat_mul (mat_mul (mat_t visible) (slice s h))
                      (mat_t (slice s h))) visible) =
         (\<Sum>j = 0..<visibleSize s.
            (\<Sum>p = 0..<poolSize s.
               (\<Sum>i = 0..<visibleSize s. mem visible ! i * elem (slice s h) i p) *
               elem (slice s h) j p) * mem visible ! j)"
proof -
  let ?V = "visibleSize s" and ?P = "poolSize s" and ?W = "slice s h"
  have v: "n_rows visible = ?V" "n_cols visible = 1"
    using assms(2) by (simp_all add: has_shape_def)
  have w: "n_rows ?W = ?V" "n_cols ?W = ?P"
    using assms(1) by simp_all
  have a: "elem (mat_mul (mat_t visible) ?W) 0 p =
           (\<Sum>i = 0..<?V. mem visible ! i * elem ?W i p)" if "p < ?P" for p
  proof -
    have "elem (mat_mul (mat_t visible) ?W) 0 p =
          (\<Sum>i = 0..<?V. elem (mat_t visible) 0 i * elem ?W i p)"
      using that v w by (simp add: elem_mat_mul)
    also have "\<dots> = (\<Sum>i = 0..<?V. mem visible ! i * elem ?W i p)"
      using v by (intro sum.cong) (simp_all add: elem_mat_t elem_colvec)
    finally show ?thesis .
  qed
  have b: "elem (mat_mul (mat_mul (mat_t visible) ?W) (mat_t ?W)) 0 j =
           (\<Sum>p = 0..<?P. (\<Sum>i = 0..<?V. mem visible ! i * elem ?W i p) * elem ?W j p)"
    if "j < ?V" for j
  proof -
    have "elem (mat_mul (mat_mul (mat_t visible) ?W) (mat_t ?W)) 0 j =
          (\<Sum>p = 0..<?P. elem (mat_mul (mat_t visible) ?W) 0 p * elem (mat_t ?W) p j)"
      using that v w by (simp add: elem_mat_mul)
    also have "\<dots> =
          (\<Sum>p = 0..<?P. (\<Sum>i = 0..<?V. mem visible ! i * elem ?W i p) * elem ?W j p)"
      using that w by (intro sum.cong) (simp_all add: a elem_mat_t)
    finally show ?thesis .
  qed
  have "as_scalar (mat_mul (mat_mul (mat_mul (mat_t visible) ?W) (mat_t ?W)) visible) =
        (\<Sum>j = 0..<?V. elem (mat_mul (mat_mul (mat_t visible) ?W) (mat_t ?W)) 0 j *
                          elem visible j 0)"
    using v w by (simp add: as_scalar_elem elem_mat_mul)
  also have "\<dots> =
        (\<Sum>j = 0..<?V.
            (\<Sum>p = 0..<?P. (\<Sum>i = 0..<?V. mem visible ! i * elem ?W i p) * elem ?W j p) *
            mem visible ! j)"
    by (intro sum.cong) (simp_all add: b elem_colvec)
  finally show ?thesis .
qed

lemma quad_form_sym:
  fixes x :: "nat \<Rightarrow> real" and w :: "nat \<Rightarrow> nat \<Rightarrow> real"
  shows "(\<Sum>j = 0..<V. (\<Sum>p = 0..<P. (\<Sum>i = 0..<V. x i * w i p) * w j p) * x j) =
         (\<Sum>i = 0..<V. \<Sum>j = 0..<V. x i * (\<Sum>p = 0..<P. w i p * w j p) * x j)"
proof -
  have "(\<Sum>j = 0..<V. (\<Sum>p = 0..<P. (\<Sum>i = 0..<V. x i * w i p) * w j p) * x j) =
        (\<Sum>j = 0..<V. \<Sum>i = 0..<V. \<Sum>p = 0..<P. x i * w i p * w j p * x j)"
    by (simp add: sum_distrib_left sum_distrib_right sum.swap[of _ "{0..<P}" "{0..<V}"])
  also have "\<dots> = (\<Sum>i = 0..<V. \<Sum>j = 0..<V. \<Sum>p = 0..<P. x i * w i p * w j p * x j)"
    by (rule sum.swap)
  also have "\<dots> = (\<Sum>i = 0..<V. \<Sum>j = 0..<V. x i * (\<Sum>p = 0..<P. w i p * w j p) * x j)"
    by (simp add: sum_distrib_left sum_distrib_right mult.assoc)
  finally show ?thesis .
qed

lemma initialized_example: "initialized example_rbm"
  by (simp add: initialized_def example_rbm_def has_shape_def shape_of_def n_elem_def)

lemma shape_example_visible: "has_shape example_visible (visibleSize example_rbm) 1"
  by (simp add: example_visible_def example_rbm_def has_shape_def)

section \<open>The spike mean\<close>

lemma SpikeMean_raw:
  assumes "hiddenSize s \<le> length (mem out)" and "h < hiddenSize s"
  shows "mem (SpikeMean s visible out) ! h =
         LogisticFunction_Fn (0.5 * (1.0 / slabPenalty s) *
           as_scalar (mat_mul (mat_mul (mat_mul (mat_t visible) (slice s h))
                                 (mat_t (slice s h))) visible) +
           spikeBias_at s h)"
  using assms by (simp add: SpikeMean_def for_loop_set_elem_nth)

text \<open>
  Claim C5. For a visible vector of \<open>V\<close> entries and every hidden unit \<open>h\<close>, \<open>SpikeMean\<close>
  writes entry \<open>h\<close> equal to the logistic sigmoid of the quadratic form
  \<open>visible\<^sup>T W\<^sub>h W\<^sub>h\<^sup>T visible / (2 slabPenalty) + b[h]\<close>, where \<open>W\<^sub>h\<close> is slice \<open>h\<close> of the
  stored weight cube and \<open>b\<close> the stored spike bias.
\<close>

theorem SpikeMean_entry:
  assumes "initialized s" and "has_shape visible (visibleSize s) 1"
    and "hiddenSize s \<le> length (mem out)" and "h < hiddenSize s"
  shows "mem (SpikeMean s visible out) ! h =
         LogisticFunction_Fn
           ((\<Sum>i = 0..<visibleSize s. \<Sum>j = 0..<visibleSize s.
               mem visible ! i *
               (\<Sum>p = 0..<poolSize s. elem (slice s h) i p * elem (slice s h) j p) *
               mem visible ! j) / (2 * slabPenalty s) +
            spikeBias_at s h)"
proof -
  have "mem (SpikeMean s visible out) ! h =
        LogisticFunction_Fn (0.5 * (1.0 / slabPenalty s) *
          as_scalar (mat_mul (mat_mul (mat_mul (mat_t visible) (slice s h))
                                (mat_t (slice s h))) visible) +
          spikeBias_at s h)"
    using assms(3,4) by (rule SpikeMean_raw)
  also have "0.5 * (1.0 / slabPenalty s) *
          as_scalar (mat_mul (mat_mul (mat_mul (mat_t visible) (slice s h))
                                (mat_t (slice s h))) visible) =
        (\<Sum>i = 0..<visibleSize s. \<Sum>j = 0..<visibleSize s.
               mem visible ! i *
               (\<Sum>p = 0..<poolSize s. elem (slice s h) i p * elem (slice s h) j p) *
               mem visible ! j) / (2 * slabPenalty s)"
    using assms(1,2,4) by (simp add: quad_form quad_form_sym)
  finally show ?thesis .
qed

theorem SpikeMean_entry_witness:
  "initialized example_rbm \<and> has_shape example_visible (visibleSize example_rbm) 1 \<and>
   mem (SpikeMean example_rbm example_visible (spikeMean example_rbm)) ! 0 =
     LogisticFunction_Fn (1 / 2)"
proof -
  have "mem (SpikeMean example_rbm example_visible (spikeMean example_rbm)) ! 0 =
         LogisticFunction_Fn
           ((\<Sum>i = 0..<visibleSize example_rbm. \<Sum>j = 0..<visibleSize example_rbm.
               mem example_visible ! i *
               (\<Sum>p = 0..<poolSize example_rbm.
                  elem (slice example_rbm 0) i p * elem (slice example_rbm 0) j p) *
               mem example_visible ! j) / (2 * slabPenalty example_rbm) +
            spikeBias_at example_rbm 0)"
    by (rule SpikeMean_entry[OF initialized_example shape_example_visible])
       (simp_all add: example_rbm_def)
  also have "\<dots> = LogisticFunction_Fn (1 / 2)"
    by (simp add: example_rbm_def example_visible_def slice_def slice_of_def view_def
          elem_def spikeBias_at_def numeral_2_eq_2)
  finally show ?thesis
    using initialized_example shape_example_visible by simp
qed

section \<open>Loops that write one block after another\<close>

lemma for_loop_store_length [simp]:
  "length (for_loop n (\<lambda>i buf. store buf (g i) (f i)) buf) = length buf"
  by (induction n) simp_all

lemma block_idx_less: "i < n \<Longrightarrow> j < B \<Longrightarrow> B * i + j < B * (n::nat)"
  using idx_less[of j B i n] by (simp add: add.commute)

lemma for_loop_store_nth:
  assumes "\<And>i. i < n \<Longrightarrow> length (f i) = B"
    and "i < n" and "j < B" and "off + B * i + j < length buf"
  shows "for_loop n (\<lambda>i buf. store buf (off + B * i) (f i)) buf ! (off + B * i + j) = f i ! j"
  using assms
proof (induction n)
  case 0
  then show ?case by simp
next
  case (Suc n)
  show ?case
  proof (cases "i = n")
    case True
    with Suc.prems show ?thesis by (simp add: nth_store)
  next
    case False
    with Suc.prems(2) have i: "i < n" by simp
    then have "B * i + j < B * n"
      using Suc.prems(3) by (rule block_idx_less)
    then have "\<not> off + B * n \<le> off + B * i + j" by simp
    moreover have "for_loop n (\<lambda>i buf. store buf (off + B * i) (f i)) buf ! (off + B * i + j)
                   = f i ! j"
      using Suc.prems i by (intro Suc.IH) simp_all
    ultimately show ?thesis
      using Suc.prems(4) by (simp add: nth_store)
  qed
qed

lemma for_loop_store_frame:
  assumes "\<And>i. i < n \<Longrightarrow> length (f i) = B"
    and "k < length buf" and "k < off \<or> off + B * n \<le> k"
  shows "for_loop n (\<lambda>i buf. store buf (off + B * i) (f i)) buf ! k = buf ! k"
  using assms
proof (induction n)
  case 0
  then show ?case by simp
next
  case (Suc n)
  have "for_loop n (\<lambda>i buf. store buf (off + B * i) (f i)) buf ! k = buf ! k"
    using Suc.prems by (intro Suc.IH) auto
  moreover have "\<not> (off + B * n \<le> k \<and> k < off + B * n + length (f n))"
    using Suc.prems(1)[of n] Suc.prems(3) by auto
  ultimately show ?case
    using Suc.prems(2) by (auto simp: nth_store)
qed

section \<open>The slab mean\<close>

lemma SlabMean_mem:
  "mem (for_loop n (\<lambda>i out. set_col out i (X i)) out) =
     for_loop n (\<lambda>i buf. store buf (0 + n_rows out * i) (mem (X i))) (mem out) \<and>
   n_rows (for_loop n (\<lambda>i out. set_col out i (X i)) out) = n_rows out \<and>
   n_cols (for_loop n (\<lambda>i out. set_col out i (X i)) out) = n_cols out"
  by (induction n) (simp_all add: set_col_def)

lemma shape_SlabMean:
  "has_shape out r c \<Longrightarrow> has_shape (SlabMean s visible spike out) r c"
  by (simp add: SlabMean_def has_shape_def SlabMean_mem)

lemma slab_column:
  assumes "initialized s" and "has_shape visible (visibleSize s) 1"
    and "h < hiddenSize s" and "p < poolSize s"
  shows "mem (mat_mul (scal c (mat_t (slice s h))) visible) ! p =
         c * (\<Sum>v = 0..<visibleSize s. elem (slice s h) v p * mem visible ! v)"
proof -
  let ?V = "visibleSize s" and ?P = "poolSize s" and ?W = "slice s h"
  have v: "n_rows visible = ?V" "n_cols visible = 1"
    using assms(2) by (simp_all add: has_shape_def)
  have w: "n_rows ?W = ?V" "n_cols ?W = ?P"
    using assms(1) by simp_all
  have "mem (mat_mul (scal c (mat_t ?W)) visible) ! p =
        elem (mat_mul (scal c (mat_t ?W)) visible) p 0"
    by (simp add: elem_colvec)
  also have "\<dots> = (\<Sum>v = 0..<?V. elem (scal c (mat_t ?W)) p v * elem visible v 0)"
    using assms(4) v w by (simp add: elem_mat_mul)
  also have "\<dots> = (\<Sum>v = 0..<?V. c * (elem ?W v p * mem visible ! v))"
  proof (intro sum.cong refl)
    fix x assume "x \<in> {0..<?V}"
    then have x: "x < ?V" by simp
    have "p + ?P * x < ?P * ?V"
      using assms(4) x by (rule idx_less)
    then show "elem (scal c (mat_t ?W)) p x * elem visible x 0 =
               c * (elem ?W x p * mem visible ! x)"
      using assms(4) x w by (simp add: elem_scal elem_mat_t elem_colvec)
  qed
  also have "\<dots> = c * (\<Sum>v = 0..<?V. elem ?W v p * mem visible ! v)"
    by (simp add: sum_distrib_left)
  finally show ?thesis .
qed

lemma SlabMean_elem:
  assumes "initialized s" and "has_shape visible (visibleSize s) 1"
    and "has_shape out (poolSize s) (hiddenSize s)"
    and "h < hiddenSize s" and "p < poolSize s"
  shows "elem (SlabMean s visible spike out) p h =
         mem spike ! h / slabPenalty s *
           (\<Sum>v = 0..<visibleSize s. elem (slice s h) v p * mem visible ! v)"
proof -
  let ?P = "poolSize s"
  let ?X = "\<lambda>i. mat_mul (scal ((1.0 / slabPenalty s) * mem spike ! i) (mat_t (slice s i))) visible"
  have o: "n_rows out = ?P" "length (mem out) = ?P * hiddenSize s"
    using assms(3) by (simp_all add: has_shape_def)
  have in_range: "0 + ?P * h + p < length (mem out)"
    using block_idx_less[OF assms(4,5)] o by simp
  have "elem (SlabMean s visible spike out) p h =
        for_loop (hiddenSize s) (\<lambda>i buf. store buf (0 + ?P * i) (mem (?X i))) (mem out) !
          (0 + ?P * h + p)"
    using o by (simp add: SlabMean_def elem_def SlabMean_mem add.commute)
  also have "\<dots> = mem (?X h) ! p"
    using assms(1,2,4,5) in_range
    by (intro for_loop_store_nth) (simp_all add: has_shape_def)
  also have "\<dots> = mem spike ! h / slabPenalty s *
           (\<Sum>v = 0..<visibleSize s. elem (slice s h) v p * mem visible ! v)"
    using assms(1,2,4,5) by (simp add: slab_column)
  finally show ?thesis .
qed

text \<open>
  Claim C6. \<open>SlabMean\<close> writes column \<open>h\<close> of its \<open>P x H\<close> output equal to
  \<open>spike[h] / slabPenalty * W\<^sub>h\<^sup>T visible\<close>; where \<open>spike[h]\<close> is zero the whole column is
  zero, whatever the visible vector and the weights are.
\<close>

theorem SlabMean_column:
  assumes "initialized s" and "has_shape visible (visibleSize s) 1"
    and "has_shape spike (hiddenSize s) 1"
    and "has_shape out (poolSize s) (hiddenSize s)"
    and "h < hiddenSize s" and "p < poolSize s"
  shows "elem (SlabMean s visible spike out) p h =
           mem spike ! h / slabPenalty s *
             (\<Sum>v = 0..<visibleSize s. elem (slice s h) v p * mem visible ! v) \<and>
         (mem spike ! h = 0 \<longrightarrow> elem (SlabMean s visible spike out) p h = 0)"
  using SlabMean_elem[OF assms(1,2,4,5,6)] by simp

lemma shape_example_spike: "has_shape example_spike (hiddenSize example_rbm) 1"
  by (simp add: example_spike_def example_rbm_def has_shape_def)

lemma shape_example_slabMean:
  "has_shape (slabMean example_rbm) (poolSize example_rbm) (hiddenSize example_rbm)"
  by (simp add: example_rbm_def has_shape_def)

theorem SlabMean_column_witness:
  "initialized example_rbm \<and> has_shape example_visible (visibleSize example_rbm) 1 \<and>
   has_shape example_spike (hiddenSize example_rbm) 1 \<and>
   has_shape (slabMean example_rbm) (poolSize example_rbm) (hiddenSize example_rbm) \<and>
   mem example_spike ! 0 = 0 \<and>
   elem (SlabMean example_rbm example_visible example_spike (slabMean example_rbm)) 0 0 = 0 \<and>
   elem (SlabMean example_rbm example_visible example_spike (slabMean example_rbm)) 0 1 = 1"
proof -
  have h: "0 < hiddenSize example_rbm" "1 < hiddenSize example_rbm" "0 < poolSize example_rbm"
    by (simp_all add: example_rbm_def)
  note c0 = SlabMean_column[OF initialized_example shape_example_visible
      shape_example_spike shape_example_slabMean h(1) h(3)]
  note c1 = SlabMean_column[OF initialized_example shape_example_visible
      shape_example_spike shape_example_slabMean h(2) h(3)]
  have z: "mem example_spike ! 0 = 0"
    by (simp add: example_spike_def)
  have "elem (SlabMean example_rbm example_visible example_spike (slabMean example_rbm)) 0 1 =
        mem example_spike ! 1 / slabPenalty example_rbm *
          (\<Sum>v = 0..<visibleSize example_rbm.
             elem (slice example_rbm 1) v 0 * mem example_visible ! v)"
    using c1 by simp
  also have "\<dots> = 1"
    by (simp add: example_rbm_def example_visible_def example_spike_def slice_def slice_of_def
          view_def elem_def numeral_2_eq_2)
  finally show ?thesis
    using c0 z initialized_example shape_example_visible shape_example_spike
      shape_example_slabMean by simp
qed

section \<open>The free energy\<close>

lemma penalty_term:
  assumes "has_shape visible V 1"
  shows "as_scalar (mat_mul (scal a (mat_t visible)) visible) =
         a * (\<Sum>v = 0..<V. (mem visible ! v)\<^sup>2)"
proof -
  have v: "n_rows visible = V" "n_cols visible = 1" "length (mem visible) = V"
    using assms by (simp_all add: has_shape_def)
  have "as_scalar (mat_mul (scal a (mat_t visible)) visible) =
        (\<Sum>j = 0..<V. elem (scal a (mat_t visible)) 0 j * elem visible j 0)"
    using v by (simp add: as_scalar_elem elem_mat_mul)
  also have "\<dots> = (\<Sum>j = 0..<V. a * (mem visible ! j)\<^sup>2)"
    using v by (intro sum.cong refl)
      (simp add: elem_scal elem_mat_t elem_colvec power2_eq_square)
  also have "\<dots> = a * (\<Sum>v = 0..<V. (mem visible ! v)\<^sup>2)"
    by (simp add: sum_distrib_left)
  finally show ?thesis .
qed

lemma projection_norm:
  assumes "initialized s" and "has_shape visible (visibleSize s) 1" and "h < hiddenSize s"
  shows "accu (square (mat_mul (mat_t visible) (slice s h))) =
         (\<Sum>p = 0..<poolSize s.
            (\<Sum>v = 0..<visibleSize s. elem (slice s h) v p * mem visible ! v)\<^sup>2)"
proof -
  let ?V = "visibleSize s" and ?P = "poolSize s" and ?W = "slice s h"
  let ?M = "mat_mul (mat_t visible) ?W"
  have v: "n_rows visible = ?V" "n_cols visible = 1"
    using assms(2) by (simp_all add: has_shape_def)
  have w: "n_rows ?W = ?V" "n_cols ?W = ?P"
    using assms(1) by simp_all
  have len: "length (mem ?M) = ?P"
    using v w by simp
  have "accu (square ?M) = (\<Sum>p = 0..<?P. (mem ?M ! p)\<^sup>2)"
    using len by (simp add: accu_def square_def sum_list_sum_nth power2_eq_square)
  also have "\<dots> = (\<Sum>p = 0..<?P. (\<Sum>i = 0..<?V. elem ?W i p * mem visible ! i)\<^sup>2)"
  proof (intro sum.cong refl)
    fix p assume "p \<in> {0..<?P}"
    then have p: "p < ?P" by simp
    have "mem ?M ! p = elem ?M 0 p"
      using v by (simp add: elem_def)
    also have "\<dots> = (\<Sum>i = 0..<?V. elem (mat_t visible) 0 i * elem ?W i p)"
      using p v w by (simp add: elem_mat_mul)
    also have "\<dots> = (\<Sum>i = 0..<?V. elem ?W i p * mem visible ! i)"
      using v by (intro sum.cong refl) (simp add: elem_mat_t elem_colvec)
    finally show "(mem ?M ! p)\<^sup>2 = (\<Sum>i = 0..<?V. elem ?W i p * mem visible ! i)\<^sup>2"
      by simp
  qed
  finally show ?thesis .
qed

text \<open>
  Claim C4. For a visible vector of \<open>V\<close> entries, \<open>FreeEnergy\<close> returns
  \<open>0.5 \<alpha> |visible|\<^sup>2 - 0.5 H P log (2 \<pi> / slabPenalty) -
   \<Sum>\<^sub>h softplus (b[h] - |W\<^sub>h\<^sup>T visible|\<^sup>2 / (2 slabPenalty))\<close>,
  with \<open>\<alpha>\<close> the stored visible penalty, \<open>b\<close> the stored spike bias and \<open>W\<^sub>h\<close> slice \<open>h\<close>
  of the stored weight cube.
\<close>

theorem FreeEnergy_formula:
  assumes "initialized s" and "has_shape visible (visibleSize s) 1"
  shows "FreeEnergy s visible =
         0.5 * visiblePenalty_at s 0 * (\<Sum>v = 0..<visibleSize s. (mem visible ! v)\<^sup>2) -
         0.5 * real (hiddenSize s) * real (poolSize s) * ln (2 * pi / slabPenalty s) -
         (\<Sum>h = 0..<hiddenSize s.
            SoftplusFunction_Fn
              (spikeBias_at s h -
               (\<Sum>p = 0..<poolSize s.
                  (\<Sum>v = 0..<visibleSize s. elem (slice s h) v p * mem visible ! v)\<^sup>2) /
               (2 * slabPenalty s)))"
proof -
  have "(\<Sum>h = 0..<hiddenSize s.
           SoftplusFunction_Fn
             (spikeBias_at s h -
              accu (square (mat_mul (mat_t visible) (slice s h))) / (2.0 * slabPenalty s))) =
        (\<Sum>h = 0..<hiddenSize s.
            SoftplusFunction_Fn
              (spikeBias_at s h -
               (\<Sum>p = 0..<poolSize s.
                  (\<Sum>v = 0..<visibleSize s. elem (slice s h) v p * mem visible ! v)\<^sup>2) /
               (2 * slabPenalty s)))"
    using assms by (intro sum.cong refl) (simp add: projection_norm)
  then show ?thesis
    using assms(2) by (simp add: FreeEnergy_def Let_def for_loop_minus penalty_term)
qed

theorem FreeEnergy_formula_witness:
  "initialized example_rbm \<and> has_shape example_visible (visibleSize example_rbm) 1 \<and>
   FreeEnergy example_rbm example_visible =
     1 - ln (2 * pi) - 2 * SoftplusFunction_Fn (- (1 / 2))"
proof -
  have "FreeEnergy example_rbm example_visible =
         0.5 * visiblePenalty_at example_rbm 0 *
           (\<Sum>v = 0..<visibleSize example_rbm. (mem example_visible ! v)\<^sup>2) -
         0.5 * real (hiddenSize example_rbm) * real (poolSize example_rbm) *
           ln (2 * pi / slabPenalty example_rbm) -
         (\<Sum>h = 0..<hiddenSize example_rbm.
            SoftplusFunction_Fn
              (spikeBias_at example_rbm h -
               (\<Sum>p = 0..<poolSize example_rbm.
                  (\<Sum>v = 0..<visibleSize example_rbm.
                     elem (slice example_rbm h) v p * mem example_visible ! v)\<^sup>2) /
               (2 * slabPenalty example_rbm)))"
    by (rule FreeEnergy_formula[OF initialized_example shape_example_visible])
  also have "\<dots> = 1 - ln (2 * pi) - 2 * SoftplusFunction_Fn (- (1 / 2))"
    by (simp add: example_rbm_def example_visible_def slice_def slice_of_def view_def
          elem_def spikeBias_at_def visiblePenalty_at_def numeral_2_eq_2)
  finally show ?thesis
    using initialized_example shape_example_visible by simp
qed

section \<open>The visible mean\<close>

lemma shape_zeros [simp]:
  "n_rows (zeros m r c) = r" "n_cols (zeros m r c) = c"
  "mem (zeros m r c) = replicate (r * c) 0"
  by (simp_all add: zeros_def fill_zeros_def set_size_def)

lemma for_loop_mat_add_shape:
  "n_rows (for_loop n (\<lambda>i out. mat_add out (Y i)) out) = n_rows out \<and>
   n_cols (for_loop n (\<lambda>i out. mat_add out (Y i)) out) = n_cols out"
  by (induction n) (simp_all add: mat_add_def)

lemma for_loop_mat_add_length:
  "(\<And>i. i < n \<Longrightarrow> length (mem (Y i)) = length (mem out)) \<Longrightarrow>
   length (mem (for_loop n (\<lambda>i out. mat_add out (Y i)) out)) = length (mem out)"
  by (induction n) (simp_all add: mat_add_def)

lemma for_loop_mat_add_nth:
  assumes "\<And>i. i < n \<Longrightarrow> length (mem (Y i)) = length (mem out)"
    and "v < length (mem out)"
  shows "mem (for_loop n (\<lambda>i out. mat_add out (Y i)) out) ! v =
         mem out ! v + (\<Sum>i = 0..<n. mem (Y i) ! v)"
  using assms
proof (induction n)
  case 0
  then show ?case by simp
next
  case (Suc n)
  have len: "length (mem (for_loop n (\<lambda>i out. mat_add out (Y i)) out)) = length (mem out)"
    using Suc.prems(1) by (intro for_loop_mat_add_length) simp
  have "mem (for_loop n (\<lambda>i out. mat_add out (Y i)) out) ! v =
        mem out ! v + (\<Sum>i = 0..<n. mem (Y i) ! v)"
    using Suc.prems by (intro Suc.IH) simp_all
  then show ?case
    using len Suc.prems(1)[of n] Suc.prems(2) by (simp add: mat_add_def)
qed

lemma hidden_spike:
  "has_shape input (H + P * H) 1 \<Longrightarrow> h < H \<Longrightarrow> mem (view (mem input) 0 H 1) ! h = mem input ! h"
  by (simp add: view_def has_shape_def)

lemma hidden_slab_col:
  assumes "has_shape input (H + P * H) 1" and "h < H" and "p < P"
  shows "elem (col (view (mem input) H P H) h) p 0 = mem input ! (H + (p + P * h))"
proof -
  have lt: "P * h + p < P * H"
    using assms(2,3) by (rule block_idx_less)
  have len: "length (mem input) = H + P * H"
    using assms(1) by (simp add: has_shape_def)
  have "elem (col (view (mem input) H P H) h) p 0 =
        take P (drop (P * h) (take (P * H) (drop H (mem input)))) ! p"
    by (simp add: elem_def col_def view_def)
  also have "\<dots> = drop (P * h) (take (P * H) (drop H (mem input))) ! p"
    using assms(3) by simp
  also have "\<dots> = take (P * H) (drop H (mem input)) ! (P * h + p)"
    using lt len assms(2) by (intro nth_drop) simp
  also have "\<dots> = drop H (mem input) ! (P * h + p)"
    using lt by simp
  also have "\<dots> = mem input ! (H + (P * h + p))"
    using lt len by (intro nth_drop) simp
  finally show ?thesis
    by (simp add: add.commute)
qed

lemma contribution:
  assumes "initialized s"
    and "has_shape input (hiddenSize s + poolSize s * hiddenSize s) 1"
    and "h < hiddenSize s" and "v < visibleSize s"
  shows "mem (scal_r (mat_mul (slice s h)
                 (col (view (mem input) (hiddenSize s) (poolSize s) (hiddenSize s)) h))
               (mem (view (mem input) 0 (hiddenSize s) 1) ! h)) ! v =
         (\<Sum>p = 0..<poolSize s.
            elem (slice s h) v p * mem input ! (hiddenSize s + (p + poolSize s * h))) *
         mem input ! h"
proof -
  let ?H = "hiddenSize s" and ?P = "poolSize s" and ?W = "slice s h"
  let ?c = "col (view (mem input) ?H ?P ?H) h"
  have w: "n_rows ?W = visibleSize s" "n_cols ?W = ?P"
    using assms(1) by simp_all
  have c: "n_cols ?c = 1"
    by (simp add: col_def)
  have "mem (mat_mul ?W ?c) ! v = elem (mat_mul ?W ?c) v 0"
    by (simp add: elem_colvec)
  also have "\<dots> = (\<Sum>p = 0..<?P. elem ?W v p * elem ?c p 0)"
    using assms(4) w c by (simp add: elem_mat_mul)
  also have "\<dots> = (\<Sum>p = 0..<?P. elem ?W v p * mem input ! (?H + (p + ?P * h)))"
    using assms(2,3) by (intro sum.cong refl) (simp add: hidden_slab_col)
  finally have "mem (mat_mul ?W ?c) ! v =
      (\<Sum>p = 0..<?P. elem ?W v p * mem input ! (?H + (p + ?P * h)))" .
  moreover have "v < length (mem (mat_mul ?W ?c))"
    using assms(4) w c by simp
  ultimately show ?thesis
    using hidden_spike[OF assms(2,3)] by (simp add: scal_r_def)
qed

lemma VisibleMean_nth:
  assumes "initialized s"
    and "has_shape input (hiddenSize s + poolSize s * hiddenSize s) 1"
    and "v < visibleSize s"
  shows "mem (VisibleMean s input out) ! v =
         (1 / visiblePenalty_at s 0) *
         (\<Sum>h = 0..<hiddenSize s.
            (\<Sum>p = 0..<poolSize s.
               elem (slice s h) v p * mem input ! (hiddenSize s + (p + poolSize s * h))) *
            mem input ! h)"
proof -
  let ?H = "hiddenSize s" and ?P = "poolSize s" and ?V = "visibleSize s"
  let ?Y = "\<lambda>i. scal_r (mat_mul (slice s i) (col (view (mem input) ?H ?P ?H) i))
                   (mem (view (mem input) 0 ?H 1) ! i)"
  let ?out1 = "for_loop ?H (\<lambda>i output. mat_add output (?Y i)) (zeros out ?V 1)"
  have lenY: "length (mem (?Y i)) = length (mem (zeros out ?V 1))" for i
    using assms(1) by (simp add: col_def)
  have "mem ?out1 ! v = mem (zeros out ?V 1) ! v + (\<Sum>i = 0..<?H. mem (?Y i) ! v)"
    using assms(3) by (intro for_loop_mat_add_nth lenY) simp
  also have "mem (zeros out ?V 1) ! v = 0"
    using assms(3) by simp
  also have "(\<Sum>i = 0..<?H. mem (?Y i) ! v) = (\<Sum>h = 0..<?H.
            (\<Sum>p = 0..<?P. elem (slice s h) v p * mem input ! (?H + (p + ?P * h))) *
            mem input ! h)"
  proof (intro sum.cong refl)
    fix h assume "h \<in> {0..<?H}"
    then have "h < ?H" by simp
    then show "mem (?Y h) ! v =
        (\<Sum>p = 0..<?P. elem (slice s h) v p * mem input ! (?H + (p + ?P * h))) *
        mem input ! h"
      by (rule contribution[OF assms(1,2) _ assms(3)])
  qed
  finally have sum: "mem ?out1 ! v = (\<Sum>h = 0..<?H.
            (\<Sum>p = 0..<?P. elem (slice s h) v p * mem input ! (?H + (p + ?P * h))) *
            mem input ! h)" by simp
  have "length (mem ?out1) = ?V"
    using for_loop_mat_add_length[of ?H ?Y "zeros out ?V 1"] lenY by simp
  then show ?thesis
    using assms(3) sum by (simp add: VisibleMean_def Let_def scal_def)
qed

lemma shape_VisibleMean:
  assumes "initialized s"
  shows "has_shape (VisibleMean s input out) (visibleSize s) 1"
proof -
  let ?H = "hiddenSize s" and ?P = "poolSize s" and ?V = "visibleSize s"
  let ?Y = "\<lambda>i. scal_r (mat_mul (slice s i) (col (view (mem input) ?H ?P ?H) i))
                   (mem (view (mem input) 0 ?H 1) ! i)"
  have lenY: "length (mem (?Y i)) = length (mem (zeros out ?V 1))" for i
    using assms(1) by (simp add: col_def)
  show ?thesis
    using for_loop_mat_add_length[of ?H ?Y "zeros out ?V 1"] lenY
      for_loop_mat_add_shape[of ?H ?Y "zeros out ?V 1"]
    by (simp add: VisibleMean_def Let_def has_shape_def)
qed

lemma shape_scale_slab:
  "has_shape input r c \<Longrightarrow> has_shape (scale_slab s x input) r c"
  by (simp add: scale_slab_def has_shape_def)

lemma scale_slab_spike:
  "has_shape input (hiddenSize s + n) 1 \<Longrightarrow> h < hiddenSize s \<Longrightarrow>
   mem (scale_slab s c input) ! h = mem input ! h"
  by (simp add: scale_slab_def has_shape_def nth_append)

lemma scale_slab_slab:
  "has_shape input (hiddenSize s + n) 1 \<Longrightarrow> k < n \<Longrightarrow>
   mem (scale_slab s c input) ! (hiddenSize s + k) = c * mem input ! (hiddenSize s + k)"
  by (simp add: scale_slab_def has_shape_def nth_append)

text \<open>
  Claim C7. From a hidden input that holds the \<open>H\<close> spike entries followed by the \<open>P x H\<close>
  slab, \<open>VisibleMean\<close> computes \<open>(1 / \<alpha>) \<Sum>\<^sub>h W\<^sub>h slab[:, h] spike[h]\<close>; multiplying every slab
  entry by a constant \<open>c\<close>, the spike entries unchanged, multiplies every entry of the visible
  mean by \<open>c\<close>.
\<close>

theorem VisibleMean_linear:
  assumes "initialized s"
    and "has_shape input (hiddenSize s + poolSize s * hiddenSize s) 1"
    and "v < visibleSize s"
  shows "mem (VisibleMean s input out) ! v =
           (1 / visiblePenalty_at s 0) *
           (\<Sum>h = 0..<hiddenSize s.
              (\<Sum>p = 0..<poolSize s.
                 elem (slice s h) v p * mem input ! (hiddenSize s + (p + poolSize s * h))) *
              mem input ! h) \<and>
         mem (VisibleMean s (scale_slab s c input) out') ! v =
           c * mem (VisibleMean s input out) ! v"
proof -
  let ?H = "hiddenSize s" and ?P = "poolSize s" 
  let ?inner = "\<lambda>h. \<Sum>p = 0..<?P. elem (slice s h) v p * mem input ! (?H + (p + ?P * h))"
  have "(\<Sum>h = 0..<?H.
           (\<Sum>p = 0..<?P. elem (slice s h) v p *
              mem (scale_slab s c input) ! (?H + (p + ?P * h))) *
           mem (scale_slab s c input) ! h) =
        (\<Sum>h = 0..<?H. c * (?inner h * mem input ! h))"
  proof (intro sum.cong refl)
    fix h assume "h \<in> {0..<?H}"
    then have h: "h < ?H" by simp
    have "(\<Sum>p = 0..<?P. elem (slice s h) v p *
              mem (scale_slab s c input) ! (?H + (p + ?P * h))) =
          (\<Sum>p = 0..<?P. c * (elem (slice s h) v p * mem input ! (?H + (p + ?P * h))))"
    proof (intro sum.cong refl)
      fix p assume "p \<in> {0..<?P}"
      then have "p + ?P * h < ?P * ?H"
        using h by (intro idx_less) simp_all
      then show "elem (slice s h) v p * mem (scale_slab s c input) ! (?H + (p + ?P * h)) =
                 c * (elem (slice s h) v p * mem input ! (?H + (p + ?P * h)))"
        using assms(2) by (simp add: scale_slab_slab)
    qed
    then show "(\<Sum>p = 0..<?P. elem (slice s h) v p *
                  mem (scale_slab s c input) ! (?H + (p + ?P * h))) *
               mem (scale_slab s c input) ! h = c * (?inner h * mem input ! h)"
      using assms(2) h by (simp add: scale_slab_spike sum_distrib_left mult.assoc)
  qed
  also have "\<dots> = c * (\<Sum>h = 0..<?H. ?inner h * mem input ! h)"
    by (simp add: sum_distrib_left)
  finally show ?thesis
    using assms by (simp add: VisibleMean_nth shape_scale_slab)
qed

lemma shape_example_hidden:
  "has_shape example_hidden
     (hiddenSize example_rbm + poolSize example_rbm * hiddenSize example_rbm) 1"
  by (simp add: example_hidden_def example_rbm_def has_shape_def)

theorem VisibleMean_linear_witness:
  "initialized example_rbm \<and>
   has_shape example_hidden
     (hiddenSize example_rbm + poolSize example_rbm * hiddenSize example_rbm) 1 \<and>
   mem (VisibleMean example_rbm example_hidden (visibleMean example_rbm)) ! 1 = 3 \<and>
   mem (VisibleMean example_rbm (scale_slab example_rbm 5 example_hidden)
          (visibleMean example_rbm)) ! 1 = 15"
proof -
  have v: "1 < visibleSize example_rbm"
    by (simp add: example_rbm_def)
  note t = VisibleMean_linear[OF initialized_example shape_example_hidden v,
      of "visibleMean example_rbm" 5 "visibleMean example_rbm"]
  have "mem (VisibleMean example_rbm example_hidden (visibleMean example_rbm)) ! 1 =
        (1 / visiblePenalty_at example_rbm 0) *
           (\<Sum>h = 0..<hiddenSize example_rbm.
              (\<Sum>p = 0..<poolSize example_rbm.
                 elem (slice example_rbm h) 1 p *
                 mem example_hidden ! (hiddenSize example_rbm + (p + poolSize example_rbm * h))) *
              mem example_hidden ! h)"
    using t by simp
  also have "\<dots> = 3"
    by (simp add: example_rbm_def example_hidden_def slice_def slice_of_def view_def
          elem_def visiblePenalty_at_def numeral_2_eq_2)
  finally have "mem (VisibleMean example_rbm example_hidden (visibleMean example_rbm)) ! 1 = 3" .
  then show ?thesis
    using t initialized_example shape_example_hidden by simp
qed

section \<open>The positive phase\<close>

lemma shape_SpikeMean:
  "has_shape out r c \<Longrightarrow> has_shape (SpikeMean s visible out) r c"
  by (simp add: SpikeMean_def has_shape_def)

lemma for_loop_assign_slice:
  "mem (for_loop n (\<lambda>i gradient. assign_slice gradient a i (X i)) gradient) =
     for_loop n (\<lambda>i buf. store buf (v_off a + v_rows a * v_cols a * i) (mem (X i)))
       (mem gradient) \<and>
   n_rows (for_loop n (\<lambda>i gradient. assign_slice gradient a i (X i)) gradient) =
     n_rows gradient \<and>
   n_cols (for_loop n (\<lambda>i gradient. assign_slice gradient a i (X i)) gradient) =
     n_cols gradient"
  by (induction n) (simp_all add: assign_slice_def)

lemma elem_col:
  assumes "p < n_rows A" and "n_rows A * h + p < length (mem A)"
  shows "elem (col A h) p 0 = elem A p h"
proof -
  have "elem (col A h) p 0 = drop (n_rows A * h) (mem A) ! p"
    using assms(1) by (simp add: elem_def col_def)
  also have "\<dots> = mem A ! (n_rows A * h + p)"
    using assms(2) by (intro nth_drop) simp
  finally show ?thesis
    by (simp add: elem_def add.commute)
qed

lemma outer_product:
  assumes "has_shape input V 1" and "has_shape M P H"
    and "v < V" and "p < P" and "h < H"
  shows "mem (scal_r (mat_mul input (mat_t (col M h))) c) ! (v + V * p) =
         mem input ! v * elem M p h * c"
proof -
  let ?X = "mat_mul input (mat_t (col M h))"
  have i: "n_rows input = V" "n_cols input = 1"
    using assms(1) by (simp_all add: has_shape_def)
  have m: "n_rows M = P" "length (mem M) = P * H"
    using assms(2) by (simp_all add: has_shape_def)
  have cm: "n_rows (col M h) = P" "n_cols (col M h) = 1"
    using m by (simp_all add: col_def)
  have lt: "v + V * p < V * P"
    using assms(3,4) by (rule idx_less)
  have "P * h + p < P * H"
    using assms(5,4) by (rule block_idx_less)
  then have c: "elem (col M h) p 0 = elem M p h"
    using assms(4) m by (intro elem_col) simp_all
  have "mem ?X ! (v + V * p) = elem ?X v p"
    using i by (simp add: elem_def)
  also have "\<dots> = (\<Sum>j = 0..<1. elem input v j * elem (mat_t (col M h)) j p)"
    using assms(3,4) i cm by (simp add: elem_mat_mul)
  also have "\<dots> = mem input ! v * elem M p h"
    using assms(4) cm c by (simp add: elem_mat_t elem_colvec)
  finally have "mem ?X ! (v + V * p) = mem input ! v * elem M p h" .
  moreover have "length (mem ?X) = V * P"
    using i cm by simp
  ultimately show ?thesis
    using lt by (simp add: scal_r_def)
qed

lemma length_outer_product:
  "n_rows input = V \<Longrightarrow> n_rows M = P \<Longrightarrow>
   length (mem (scal_r (mat_mul input (mat_t (col M h))) c)) = V * P"
  by (simp add: col_def)

lemma Phase_state:
  "Phase rs s input gradient g = (gradient', s', g') \<Longrightarrow>
   spikeMean s' = SpikeMean s input (spikeMean s) \<and>
   (spikeSamples s', g') = SampleSpike rs s (spikeMean s') (spikeSamples s) g \<and>
   slabMean s' = SlabMean s input (spikeSamples s') (slabMean s)"
  by (auto simp: Phase_def Let_def split: prod.splits)

lemma Phase_mem:
  assumes "Phase rs s input gradient g = (gradient', s', g')"
    and "n_rows input = visibleSize s" and "n_cols input = 1"
    and "length (mem (spikeMean s)) = hiddenSize s"
  shows "mem gradient' =
         store
           (store
              (for_loop (hiddenSize s)
                 (\<lambda>i buf. store buf (0 + visibleSize s * poolSize s * i)
                    (mem (scal_r (mat_mul input (mat_t (col (slabMean s') i)))
                            (mem (spikeMean s') ! i))))
                 (mem gradient))
              (visibleSize s * poolSize s * hiddenSize s) (mem (spikeMean s')))
           (visibleSize s * poolSize s * hiddenSize s + hiddenSize s)
           (mem (mat_mul (scal (- 0.5) (mat_t input)) input))"
proof -
  have "length (mem (SpikeMean s input (spikeMean s))) = hiddenSize s"
    using assms(4) by (simp add: SpikeMean_def)
  then show ?thesis
    using assms(1,2,3)
    by (auto simp: Phase_def Let_def assign_aux_def aux_n_elem_def for_loop_assign_slice
          split: prod.splits)
qed

text \<open>
  Claim C3. For a visible vector of \<open>V\<close> entries and a gradient buffer that holds the flat
  layout, \<open>Phase\<close> leaves in the members the spike mean of the input, a spike sample drawn
  from that mean and the slab mean conditioned on the sample, and writes into the buffer:
  slice \<open>h\<close> of the weight gradient as the outer product of the visible vector and column
  \<open>h\<close> of the slab mean, times entry \<open>h\<close> of the spike mean (the mean, not the sample); the
  spike mean as the spike-bias gradient; and \<open>- 0.5 visible\<^sup>T visible\<close> as the
  visible-penalty gradient.
\<close>

theorem Phase_gradient:
  assumes "initialized s" and "has_shape input (visibleSize s) 1"
    and "visibleSize s * poolSize s * hiddenSize s + hiddenSize s + 1 \<le> length (mem gradient)"
    and "Phase rs s input gradient g = (gradient', s', g')"
  shows "spikeMean s' = SpikeMean s input (spikeMean s) \<and>
         (spikeSamples s', g') = SampleSpike rs s (spikeMean s') (spikeSamples s) g \<and>
         slabMean s' = SlabMean s input (spikeSamples s') (slabMean s) \<and>
         (\<forall>h < hiddenSize s. \<forall>p < poolSize s. \<forall>v < visibleSize s.
            mem gradient' ! (v + visibleSize s * p + visibleSize s * poolSize s * h) =
              mem input ! v * elem (slabMean s') p h * mem (spikeMean s') ! h) \<and>
         (\<forall>h < hiddenSize s.
            mem gradient' ! (visibleSize s * poolSize s * hiddenSize s + h) =
              mem (spikeMean s') ! h) \<and>
         mem gradient' ! (visibleSize s * poolSize s * hiddenSize s + hiddenSize s) =
           - 0.5 * (\<Sum>v = 0..<visibleSize s. (mem input ! v)\<^sup>2)"
proof -
  let ?V = "visibleSize s" and ?P = "poolSize s" and ?H = "hiddenSize s"
  let ?X = "\<lambda>i. mem (scal_r (mat_mul input (mat_t (col (slabMean s') i)))
                       (mem (spikeMean s') ! i))"
  let ?L = "for_loop ?H (\<lambda>i buf. store buf (0 + ?V * ?P * i) (?X i)) (mem gradient)"
  let ?Z = "mat_mul (scal (- 0.5) (mat_t input)) input"
  note st = Phase_state[OF assms(4)]
  have i: "n_rows input = ?V" "n_cols input = 1"
    using assms(2) by (simp_all add: has_shape_def)
  have sm0: "has_shape (spikeMean s) ?H 1" and sl0: "has_shape (slabMean s) ?P ?H"
    using assms(1) by (simp_all add: initialized_def)
  have sm: "has_shape (spikeMean s') ?H 1"
    using st sm0 by (simp add: shape_SpikeMean)
  have sl: "has_shape (slabMean s') ?P ?H"
    using st sl0 by (simp add: shape_SlabMean)
  have lenX: "length (?X i) = ?V * ?P" for i
    using i sl by (intro length_outer_product) (simp_all add: has_shape_def)
  have lenZ: "length (mem ?Z) = 1"
    using i by simp
  have lenS: "length (mem (spikeMean s')) = ?H"
    using sm by (simp add: has_shape_def)
  have g: "mem gradient' =
        store (store ?L (?V * ?P * ?H) (mem (spikeMean s'))) (?V * ?P * ?H + ?H) (mem ?Z)"
    using sm0 by (intro Phase_mem[OF assms(4) i]) (simp add: has_shape_def)
  have w: "mem gradient' ! (v + ?V * p + ?V * ?P * h) =
           mem input ! v * elem (slabMean s') p h * mem (spikeMean s') ! h"
    if "h < ?H" "p < ?P" "v < ?V" for h p v
  proof -
    have j: "v + ?V * p < ?V * ?P"
      using that(3,2) by (rule idx_less)
    have k: "?V * ?P * h + (v + ?V * p) < ?V * ?P * ?H"
      using that(1) j by (rule block_idx_less)
    then have "mem gradient' ! (0 + ?V * ?P * h + (v + ?V * p)) =
               ?L ! (0 + ?V * ?P * h + (v + ?V * p))"
      using assms(3) by (simp add: g nth_store)
    also have "\<dots> = ?X h ! (v + ?V * p)"
      using that(1) j k assms(3) by (intro for_loop_store_nth lenX) simp_all
    also have "\<dots> = mem input ! v * elem (slabMean s') p h * mem (spikeMean s') ! h"
      by (rule outer_product[OF assms(2) sl that(3,2,1)])
    finally show ?thesis
      by (simp add: add.commute add.left_commute)
  qed
  have b: "mem gradient' ! (?V * ?P * ?H + h) = mem (spikeMean s') ! h" if "h < ?H" for h
    using that assms(3) lenS by (simp add: g nth_store)
  have "mem gradient' ! (?V * ?P * ?H + ?H) = mem ?Z ! 0"
    using assms(3) lenZ by (simp add: g nth_store)
  also have "\<dots> = - 0.5 * (\<Sum>v = 0..<?V. (mem input ! v)\<^sup>2)"
    using penalty_term[OF assms(2), of "- 0.5"] by (simp add: as_scalar_def)
  finally show ?thesis
    using st w b by simp
qed

section \<open>The parameter store\<close>

lemma shape_set_size [simp]:
  "n_rows (set_size m r c) = r" "n_cols (set_size m r c) = c"
  "length (mem (set_size m r c)) = r * c"
  by (simp_all add: set_size_def)

lemma fill_zeros_set_size:
  "fill_zeros (set_size m r c) = \<lparr>n_rows = r, n_cols = c, mem = replicate (r * c) 0\<rparr>"
  by (simp add: fill_zeros_def set_size_def)

lemma Reset_fields:
  "visibleSize (Reset I s) = visibleSize s"
  "hiddenSize (Reset I s) = hiddenSize s"
  "poolSize (Reset I s) = poolSize s"
  "weight (Reset I s) = weight s"
  "slabPenalty (Reset I s) = slabPenalty s"
  "radius (Reset I s) = radius s"
  "reset (Reset I s)"
  "positiveGradient (Reset I s) =
     \<lparr>n_rows = shape_of s, n_cols = 1, mem = replicate (shape_of s) 0\<rparr>"
  "negativeGradient (Reset I s) =
     \<lparr>n_rows = shape_of s, n_cols = 1, mem = replicate (shape_of s) 0\<rparr>"
  "tempNegativeGradient (Reset I s) =
     \<lparr>n_rows = shape_of s, n_cols = 1, mem = replicate (shape_of s) 0\<rparr>"
  "parameter (Reset I s) =
     I \<lparr>n_rows = shape_of s, n_cols = 1, mem = replicate (shape_of s) 0\<rparr> (shape_of s) 1"
  "weightCube (Reset I s) =
     \<lparr>v_off = 0, v_rows = visibleSize s, v_cols = poolSize s, v_slices = hiddenSize s\<rparr>"
  "spikeBias (Reset I s) =
     \<lparr>v_off = n_elem (weight s), v_rows = hiddenSize s, v_cols = 1, v_slices = 1\<rparr>"
  "visiblePenalty (Reset I s) =
     \<lparr>v_off = n_elem (weight s) + hiddenSize s, v_rows = 1, v_cols = 1, v_slices = 1\<rparr>"
  by (simp_all add: Reset_def Let_def fill_zeros_set_size n_elem_def aux_n_elem_def)

lemma Reset_members:
  "has_shape (visibleMean (Reset I s)) (visibleSize s) 1"
  "has_shape (spikeMean (Reset I s)) (hiddenSize s) 1"
  "has_shape (spikeSamples (Reset I s)) (hiddenSize s) 1"
  "has_shape (slabMean (Reset I s)) (poolSize s) (hiddenSize s)"
  "has_shape (negativeSamples (Reset I s)) (visibleSize s) (batchSize s)"
  by (simp_all add: Reset_def Let_def has_shape_def)

lemma shape_of_Reset [simp]: "shape_of (Reset I s) = shape_of s"
  by (simp add: shape_of_def Reset_fields)

lemma initialized_Reset:
  assumes "has_shape (I \<lparr>n_rows = shape_of s, n_cols = 1, mem = replicate (shape_of s) 0\<rparr>
                        (shape_of s) 1) (shape_of s) 1"
    and "n_elem (weight s) + hiddenSize s < shape_of s"
  shows "initialized (Reset I s)"
  using assms Reset_members[of I s] by (simp add: initialized_def Reset_fields)

text \<open>
  Claim C1, as the code has it. For a valid configuration \<open>Reset\<close> gives the parameter
  buffer and the three gradient buffers \<open>V P H + V + H\<close> elements each, all zero, and hands
  the zeroed parameter buffer to the initializer. The weight view starts at offset 0 and
  holds the first \<open>V P H\<close> elements of the buffer; the spike-bias view holds \<open>H\<close> elements
  and the visible-penalty view is the one element immediately after the spike bias, disjoint
  from it. The three views hold \<open>V P H + H + 1\<close> elements together, so at least \<open>V - 1\<close>
  elements of the buffer lie in no view. Where the spike-bias view starts is not part of
  the statement.
\<close>

theorem Reset_layout:
  assumes "0 < visibleSize s" and "0 < hiddenSize s" and "0 < poolSize s"
    and "s' = Reset Initialize s"
    and "shape = visibleSize s * poolSize s * hiddenSize s + visibleSize s + hiddenSize s"
  shows "positiveGradient s' = \<lparr>n_rows = shape, n_cols = 1, mem = replicate shape 0\<rparr> \<and>
         negativeGradient s' = \<lparr>n_rows = shape, n_cols = 1, mem = replicate shape 0\<rparr> \<and>
         tempNegativeGradient s' = \<lparr>n_rows = shape, n_cols = 1, mem = replicate shape 0\<rparr> \<and>
         parameter s' =
           Initialize \<lparr>n_rows = shape, n_cols = 1, mem = replicate shape 0\<rparr> shape 1 \<and>
         reset s' \<and>
         weightCube s' = \<lparr>v_off = 0, v_rows = visibleSize s, v_cols = poolSize s,
                           v_slices = hiddenSize s\<rparr> \<and>
         aux_range (weightCube s') = {0..<visibleSize s * poolSize s * hiddenSize s} \<and>
         aux_range (weightCube s') \<subseteq> {0..<shape} \<and>
         v_rows (spikeBias s') = hiddenSize s \<and> v_cols (spikeBias s') = 1 \<and>
         aux_n_elem (spikeBias s') = hiddenSize s \<and>
         v_rows (visiblePenalty s') = 1 \<and> v_cols (visiblePenalty s') = 1 \<and>
         aux_n_elem (visiblePenalty s') = 1 \<and>
         v_off (visiblePenalty s') = v_off (spikeBias s') + aux_n_elem (spikeBias s') \<and>
         aux_range (spikeBias s') \<inter> aux_range (visiblePenalty s') = {} \<and>
         aux_n_elem (weightCube s') + aux_n_elem (spikeBias s') +
           aux_n_elem (visiblePenalty s') =
           visibleSize s * poolSize s * hiddenSize s + hiddenSize s + 1 \<and>
         visibleSize s - 1 \<le>
           card ({0..<shape} - (aux_range (weightCube s') \<union> aux_range (spikeBias s') \<union>
                               aux_range (visiblePenalty s')))"
proof -
  let ?W = "aux_range (weightCube s')" and ?B = "aux_range (spikeBias s')"
    and ?N = "aux_range (visiblePenalty s')"
  have sh: "shape_of s = shape"
    using assms(5) by (simp add: shape_of_def mult.assoc mult.commute)
  have buffers:
    "positiveGradient s' = \<lparr>n_rows = shape, n_cols = 1, mem = replicate shape 0\<rparr>"
    "negativeGradient s' = \<lparr>n_rows = shape, n_cols = 1, mem = replicate shape 0\<rparr>"
    "tempNegativeGradient s' = \<lparr>n_rows = shape, n_cols = 1, mem = replicate shape 0\<rparr>"
    "parameter s' =
       Initialize \<lparr>n_rows = shape, n_cols = 1, mem = replicate shape 0\<rparr> shape 1"
    "reset s'"
    using sh by (simp_all add: assms(4) Reset_fields)
  have cube: "weightCube s' = \<lparr>v_off = 0, v_rows = visibleSize s, v_cols = poolSize s,
                                 v_slices = hiddenSize s\<rparr>"
    by (simp add: assms(4) Reset_fields)
  have sizes: "v_rows (spikeBias s') = hiddenSize s" "v_cols (spikeBias s') = 1"
    "aux_n_elem (spikeBias s') = hiddenSize s"
    "v_rows (visiblePenalty s') = 1" "v_cols (visiblePenalty s') = 1"
    "aux_n_elem (visiblePenalty s') = 1"
    "aux_n_elem (weightCube s') = visibleSize s * poolSize s * hiddenSize s"
    by (simp_all add: assms(4) Reset_fields aux_n_elem_def)
  have after: "v_off (visiblePenalty s') = v_off (spikeBias s') + aux_n_elem (spikeBias s')"
    by (simp add: assms(4) Reset_fields aux_n_elem_def)
  have w: "?W = {0..<visibleSize s * poolSize s * hiddenSize s}"
    by (simp add: cube aux_range_def aux_n_elem_def)
  have inside: "?W \<subseteq> {0..<shape}"
    by (simp add: w assms(5))
  have apart: "?B \<inter> ?N = {}"
    by (simp add: aux_range_def after)
  have cards: "card ?W = visibleSize s * poolSize s * hiddenSize s" "card ?B = hiddenSize s"
    "card ?N = 1"
    using sizes by (simp_all add: aux_range_def)
  have "card (?W \<union> ?B \<union> ?N) \<le> card (?W \<union> ?B) + card ?N"
    by (rule card_Un_le)
  also have "\<dots> \<le> card ?W + card ?B + card ?N"
    using card_Un_le[of ?W ?B] by simp
  finally have u: "card (?W \<union> ?B \<union> ?N) \<le>
      visibleSize s * poolSize s * hiddenSize s + hiddenSize s + 1"
    by (simp add: cards)
  have "finite (?W \<union> ?B \<union> ?N)"
    by (simp add: aux_range_def)
  then have "card {0..<shape} - card (?W \<union> ?B \<union> ?N) \<le>
             card ({0..<shape} - (?W \<union> ?B \<union> ?N))"
    by (rule diff_card_le_card_Diff)
  then have rest: "visibleSize s - 1 \<le> card ({0..<shape} - (?W \<union> ?B \<union> ?N))"
    using u by (simp add: assms(5))
  have total: "aux_n_elem (weightCube s') + aux_n_elem (spikeBias s') +
           aux_n_elem (visiblePenalty s') =
           visibleSize s * poolSize s * hiddenSize s + hiddenSize s + 1"
    by (simp add: sizes)
  show ?thesis
    using buffers cube w inside sizes(1-6) after apart total rest by (intro conjI)
qed

theorem Reset_layout_witness:
  "0 < visibleSize fresh_rbm \<and> 0 < hiddenSize fresh_rbm \<and> 0 < poolSize fresh_rbm \<and>
   parameter (Reset keep_init fresh_rbm) = \<lparr>n_rows = 8, n_cols = 1, mem = replicate 8 0\<rparr> \<and>
   positiveGradient (Reset keep_init fresh_rbm) =
     \<lparr>n_rows = 8, n_cols = 1, mem = replicate 8 0\<rparr> \<and>
   aux_range (weightCube (Reset keep_init fresh_rbm)) = {0..<4} \<and>
   aux_range (spikeBias (Reset keep_init fresh_rbm)) \<inter>
     aux_range (visiblePenalty (Reset keep_init fresh_rbm)) = {} \<and>
   1 \<le> card ({0..<8} - (aux_range (weightCube (Reset keep_init fresh_rbm)) \<union>
     aux_range (spikeBias (Reset keep_init fresh_rbm)) \<union>
     aux_range (visiblePenalty (Reset keep_init fresh_rbm))))"
proof -
  have h: "0 < visibleSize fresh_rbm" "0 < hiddenSize fresh_rbm" "0 < poolSize fresh_rbm"
    by (simp_all add: fresh_rbm_def)
  have v: "visibleSize fresh_rbm = 2" "hiddenSize fresh_rbm = 2" "poolSize fresh_rbm = 1"
    by (simp_all add: fresh_rbm_def)
  note t = Reset_layout[OF h refl refl, of keep_init, unfolded v]
  have p: "parameter (Reset keep_init fresh_rbm) =
           \<lparr>n_rows = 8, n_cols = 1, mem = replicate 8 0\<rparr>"
    using t[THEN conjunct2, THEN conjunct2, THEN conjunct2, THEN conjunct1]
    by (simp add: keep_init_def)
  have g: "positiveGradient (Reset keep_init fresh_rbm) =
           \<lparr>n_rows = 8, n_cols = 1, mem = replicate 8 0\<rparr>"
    using t[THEN conjunct1] by simp
  note r = t[THEN conjunct2, THEN conjunct2, THEN conjunct2, THEN conjunct2, THEN conjunct2,
      THEN conjunct2]
  have w: "aux_range (weightCube (Reset keep_init fresh_rbm)) = {0..<4}"
    using r[THEN conjunct1] by simp
  note q = r[THEN conjunct2, THEN conjunct2, THEN conjunct2, THEN conjunct2, THEN conjunct2,
      THEN conjunct2, THEN conjunct2, THEN conjunct2, THEN conjunct2]
  have a: "aux_range (spikeBias (Reset keep_init fresh_rbm)) \<inter>
     aux_range (visiblePenalty (Reset keep_init fresh_rbm)) = {}"
    by (rule q[THEN conjunct1])
  have c: "1 \<le> card ({0..<8} - (aux_range (weightCube (Reset keep_init fresh_rbm)) \<union>
     aux_range (spikeBias (Reset keep_init fresh_rbm)) \<union>
     aux_range (visiblePenalty (Reset keep_init fresh_rbm))))"
    using q[THEN conjunct2, THEN conjunct2] by simp
  show ?thesis
    using h p g w a c by (intro conjI)
qed

text \<open>
  With \<open>V = 2\<close>, \<open>H = 2\<close> and \<open>P = 1\<close> the buffers have 8 elements, not
  \<open>V P H + H + 1 = 7\<close>, and the last element lies in none of the three views.
\<close>

theorem Reset_size_counterexample:
  "0 < visibleSize fresh_rbm \<and> 0 < hiddenSize fresh_rbm \<and> 0 < poolSize fresh_rbm \<and>
   length (mem (positiveGradient (Reset keep_init fresh_rbm))) \<noteq>
     visibleSize fresh_rbm * poolSize fresh_rbm * hiddenSize fresh_rbm +
     hiddenSize fresh_rbm + 1 \<and>
   length (mem (parameter (Reset keep_init fresh_rbm))) \<noteq>
     visibleSize fresh_rbm * poolSize fresh_rbm * hiddenSize fresh_rbm +
     hiddenSize fresh_rbm + 1 \<and>
   7 < length (mem (parameter (Reset keep_init fresh_rbm))) \<and>
   7 \<notin> aux_range (weightCube (Reset keep_init fresh_rbm)) \<union>
     aux_range (spikeBias (Reset keep_init fresh_rbm)) \<union>
     aux_range (visiblePenalty (Reset keep_init fresh_rbm))"
  by (simp add: Reset_fields shape_of_def fresh_rbm_def keep_init_def aux_range_def
        aux_n_elem_def n_elem_def)

text \<open>
  The spike-bias view starts at \<open>weight.n_elem\<close>, which \<open>Reset\<close> reads and does not assign:
  with an empty \<open>weight\<close> it starts at offset 0, inside the weight view.
\<close>

lemma Reset_empty_weight_overlap:
  assumes "n_elem (weight s) = 0" and "0 < visibleSize s * poolSize s * hiddenSize s"
  shows "0 \<in> aux_range (weightCube (Reset Initialize s)) \<inter>
             aux_range (spikeBias (Reset Initialize s))"
proof -
  have "0 < hiddenSize s"
    using assms(2) by simp
  then show ?thesis
    using assms by (simp add: Reset_fields aux_range_def aux_n_elem_def)
qed

section \<open>What the positive phase leaves untouched\<close>

lemma Phase_untouched:
  assumes "Phase rs s input gradient g = (gradient', s', g')"
    and "has_shape input (visibleSize s) 1"
    and "has_shape (spikeMean s) (hiddenSize s) 1"
    and "has_shape (slabMean s) (poolSize s) (hiddenSize s)"
  shows "n_rows gradient' = n_rows gradient \<and> n_cols gradient' = n_cols gradient \<and>
         length (mem gradient') = length (mem gradient) \<and>
         (\<forall>k. visibleSize s * poolSize s * hiddenSize s + hiddenSize s + 1 \<le> k \<and>
              k < length (mem gradient) \<longrightarrow> mem gradient' ! k = mem gradient ! k)"
proof -
  let ?V = "visibleSize s" and ?P = "poolSize s" and ?H = "hiddenSize s"
  let ?X = "\<lambda>i. mem (scal_r (mat_mul input (mat_t (col (slabMean s') i)))
                       (mem (spikeMean s') ! i))"
  let ?L = "for_loop ?H (\<lambda>i buf. store buf (0 + ?V * ?P * i) (?X i)) (mem gradient)"
  let ?Z = "mat_mul (scal (- 0.5) (mat_t input)) input"
  note st = Phase_state[OF assms(1)]
  have i: "n_rows input = ?V" "n_cols input = 1"
    using assms(2) by (simp_all add: has_shape_def)
  have sm: "has_shape (spikeMean s') ?H 1"
    using st assms(3) by (simp add: shape_SpikeMean)
  have sl: "has_shape (slabMean s') ?P ?H"
    using st assms(4) by (simp add: shape_SlabMean)
  have lenX: "length (?X i) = ?V * ?P" for i
    using i sl by (intro length_outer_product) (simp_all add: has_shape_def)
  have lenZ: "length (mem ?Z) = 1"
    using i by simp
  have lenS: "length (mem (spikeMean s')) = ?H"
    using sm by (simp add: has_shape_def)
  have g: "mem gradient' =
        store (store ?L (?V * ?P * ?H) (mem (spikeMean s'))) (?V * ?P * ?H + ?H) (mem ?Z)"
    using assms(3) by (intro Phase_mem[OF assms(1) i]) (simp add: has_shape_def)
  have dims: "n_rows gradient' = n_rows gradient \<and> n_cols gradient' = n_cols gradient"
    using assms(1) for_loop_assign_slice
    by (auto simp: Phase_def Let_def assign_aux_def split: prod.splits if_splits)
  have frame: "mem gradient' ! k = mem gradient ! k"
    if "?V * ?P * ?H + ?H + 1 \<le> k" "k < length (mem gradient)" for k
  proof -
    have "mem gradient' ! k = ?L ! k"
      using that lenS lenZ by (simp add: g nth_store)
    also have "\<dots> = mem gradient ! k"
      using that by (intro for_loop_store_frame lenX) simp_all
    finally show ?thesis .
  qed
  show ?thesis
    using dims frame by (simp add: g)
qed

text \<open>
  Claim C10. \<open>Reset\<close> gives each of the three gradient buffers \<open>V P H + V + H\<close>
  elements. On a store whose work matrices have the shapes that \<open>Reset\<close> gives them,
  \<open>Phase\<close> with a gradient buffer of that length keeps the length and writes no element
  from index \<open>V P H + H + 1\<close> on: the \<open>V - 1\<close> elements at the end of the buffer keep the
  values they had.
\<close>

theorem Phase_frame:
  assumes "has_shape input (visibleSize s) 1"
    and "has_shape (spikeMean s) (hiddenSize s) 1"
    and "has_shape (slabMean s) (poolSize s) (hiddenSize s)"
    and "length (mem gradient) =
           visibleSize s * poolSize s * hiddenSize s + visibleSize s + hiddenSize s"
    and "Phase rs s input gradient g = (gradient', s', g')"
  shows "length (mem (positiveGradient (Reset Initialize s))) = length (mem gradient) \<and>
         length (mem (negativeGradient (Reset Initialize s))) = length (mem gradient) \<and>
         length (mem (tempNegativeGradient (Reset Initialize s))) = length (mem gradient) \<and>
         has_shape (spikeMean (Reset Initialize s)) (hiddenSize s) 1 \<and>
         has_shape (slabMean (Reset Initialize s)) (poolSize s) (hiddenSize s) \<and>
         length (mem gradient') = length (mem gradient) \<and>
         (\<forall>k. visibleSize s * poolSize s * hiddenSize s + hiddenSize s + 1 \<le> k \<and>
              k < visibleSize s * poolSize s * hiddenSize s + visibleSize s + hiddenSize s
              \<longrightarrow> mem gradient' ! k = mem gradient ! k) \<and>
         card {k. visibleSize s * poolSize s * hiddenSize s + hiddenSize s + 1 \<le> k \<and>
                  k < visibleSize s * poolSize s * hiddenSize s + visibleSize s +
                      hiddenSize s} = visibleSize s - 1"
proof -
  let ?V = "visibleSize s" and ?P = "poolSize s" and ?H = "hiddenSize s"
  have e: "?V * ?H * ?P = ?V * ?P * ?H"
    by (simp add: mult.assoc mult.commute)
  have len: "length (mem (positiveGradient (Reset Initialize s))) = length (mem gradient)"
    "length (mem (negativeGradient (Reset Initialize s))) = length (mem gradient)"
    "length (mem (tempNegativeGradient (Reset Initialize s))) = length (mem gradient)"
    using e by (simp_all add: assms(4) Reset_fields shape_of_def)
  note m = Reset_members(2,4)[of Initialize s]
  note f = Phase_untouched[OF assms(5,1,2,3)]
  have "{k. ?V * ?P * ?H + ?H + 1 \<le> k \<and> k < ?V * ?P * ?H + ?V + ?H} =
        {?V * ?P * ?H + ?H + 1..<?V * ?P * ?H + ?V + ?H}"
    by auto
  then have "card {k. ?V * ?P * ?H + ?H + 1 \<le> k \<and> k < ?V * ?P * ?H + ?V + ?H} = ?V - 1"
    by simp
  then show ?thesis
    using f len m assms(4) by simp
qed

lemma initialized_example_reset: "initialized (Reset keep_init fresh_rbm)"
  by (rule initialized_Reset)
     (simp_all add: keep_init_def has_shape_def shape_of_def fresh_rbm_def n_elem_def)

lemma shape_example_visible_reset:
  "has_shape example_visible (visibleSize (Reset keep_init fresh_rbm)) 1"
  by (simp add: Reset_fields example_visible_def fresh_rbm_def has_shape_def)

theorem Phase_frame_witness:
  "has_shape example_visible (visibleSize example_rbm) 1 \<and>
   has_shape (spikeMean example_rbm) (hiddenSize example_rbm) 1 \<and>
   has_shape (slabMean example_rbm) (poolSize example_rbm) (hiddenSize example_rbm) \<and>
   length (mem example_gradient) = 8 \<and>
   length (mem (positiveGradient (Reset keep_init example_rbm))) = 8 \<and>
   mem (fst (Phase const_source example_rbm example_visible example_gradient ())) ! 7 = 9"
proof -
  let ?r = "Phase const_source example_rbm example_visible example_gradient ()"
  have v: "visibleSize example_rbm = 2" "hiddenSize example_rbm = 2" "poolSize example_rbm = 1"
    by (simp_all add: example_rbm_def)
  have m: "has_shape (spikeMean example_rbm) (hiddenSize example_rbm) 1"
    by (simp add: example_rbm_def has_shape_def)
  have l8: "length (mem example_gradient) = 8"
    by (simp add: example_gradient_def)
  have l: "length (mem example_gradient) =
           visibleSize example_rbm * poolSize example_rbm * hiddenSize example_rbm +
           visibleSize example_rbm + hiddenSize example_rbm"
    by (simp add: v l8)
  have p: "?r = (fst ?r, fst (snd ?r), snd (snd ?r))"
    by (simp only: prod.collapse)
  note f = Phase_frame[OF shape_example_visible m shape_example_slabMean l p, of keep_init]
  have r8: "length (mem (positiveGradient (Reset keep_init example_rbm))) = 8"
    using f[THEN conjunct1] l8 by simp
  have "mem (fst ?r) ! 7 = mem example_gradient ! 7"
    using f by (simp add: v)
  then have "mem (fst ?r) ! 7 = 9"
    by (simp add: example_gradient_def)
  then show ?thesis
    using shape_example_visible m shape_example_slabMean l8 r8 by (intro conjI)
qed

theorem Phase_gradient_witness:
  "initialized (Reset keep_init fresh_rbm) \<and>
   has_shape example_visible (visibleSize (Reset keep_init fresh_rbm)) 1 \<and>
   mem (fst (Phase const_source (Reset keep_init fresh_rbm) example_visible
               example_gradient ())) ! 6 = - 1"
proof -
  let ?s = "Reset keep_init fresh_rbm"
  let ?r = "Phase const_source ?s example_visible example_gradient ()"
  have v: "visibleSize ?s = 2" "hiddenSize ?s = 2" "poolSize ?s = 1"
    by (simp_all add: Reset_fields fresh_rbm_def)
  have l: "visibleSize ?s * poolSize ?s * hiddenSize ?s + hiddenSize ?s + 1
             \<le> length (mem example_gradient)"
    by (simp add: v example_gradient_def)
  have p: "?r = (fst ?r, fst (snd ?r), snd (snd ?r))"
    by (simp only: prod.collapse)
  note f = Phase_gradient[OF initialized_example_reset shape_example_visible_reset l p]
  have "mem (fst ?r) ! 6 = - 0.5 * (\<Sum>v = 0..<2. (mem example_visible ! v)\<^sup>2)"
    using f by (simp add: v)
  also have "\<dots> = - 1"
    by (simp add: example_visible_def numeral_2_eq_2)
  finally show ?thesis
    using initialized_example_reset shape_example_visible_reset by simp
qed

section \<open>The hidden mean\<close>

lemma draw_loop_cong:
  assumes "\<And>i. i < n \<Longrightarrow> f i = f' i"
  shows "for_loop n (\<lambda>i (out, g). let (x, g') = f i g in (set_elem out i x, g')) og =
         for_loop n (\<lambda>i (out, g). let (x, g') = f' i g in (set_elem out i x, g')) og"
  using assms by (induction n) simp_all

lemma SampleSpike_cong:
  assumes "\<And>i. i < hiddenSize s \<Longrightarrow> mem mean ! i = mem mean' ! i"
  shows "SampleSpike rs s mean spike g = SampleSpike rs s mean' spike g"
  unfolding SampleSpike_def using assms by (intro draw_loop_cong) simp

lemma length_SpikeMean [simp]: "length (mem (SpikeMean s visible out)) = length (mem out)"
  by (simp add: SpikeMean_def)

lemma length_SlabMean [simp]:
  "length (mem (SlabMean s visible spike out)) = length (mem out)"
  by (simp add: SlabMean_def SlabMean_mem)

lemma HiddenMean_eq:
  "HiddenMean rs s input out g =
     (let output0 = set_size out (hiddenSize s + poolSize s * hiddenSize s) 1;
          sm = SpikeMean s input (view (mem output0) 0 (hiddenSize s) 1);
          output1 = output0\<lparr>mem := store (mem output0) 0 (mem sm)\<rparr>;
          (spikeSamples1, g1) =
            SampleSpike rs s (view (mem output1) 0 (hiddenSize s) 1) (spikeSamples s) g;
          sl = SlabMean s input spikeSamples1
                 (view (mem output1) (hiddenSize s) (poolSize s) (hiddenSize s))
      in (output1\<lparr>mem := store (mem output1) (hiddenSize s) (mem sl)\<rparr>,
          s\<lparr>spikeSamples := spikeSamples1\<rparr>, g1))"
  by (simp add: HiddenMean_def Let_def write_back_def split: prod.splits)

text \<open>
  Claim C8. \<open>HiddenMean\<close> returns a vector of \<open>H + P H\<close> entries: first the spike mean
  of the visible input, then a slab mean. The spike sample is drawn by \<open>SampleSpike\<close> from
  the spike-mean entries of the output, and every slab entry is
  \<open>sample[h] / slabPenalty * (W\<^sub>h\<^sup>T visible)[p]\<close> with the sampled spike in place of the
  spike mean: the slab part depends on the draws of the random source.
\<close>

theorem HiddenMean_sampled_spike:
  assumes "initialized s" and "has_shape input (visibleSize s) 1"
    and "HiddenMean rs s input out g = (output, s', g')"
  shows "has_shape output (hiddenSize s + poolSize s * hiddenSize s) 1 \<and>
         (\<forall>h < hiddenSize s. mem output ! h = mem (SpikeMean s input (spikeMean s)) ! h) \<and>
         (spikeSamples s', g') = SampleSpike rs s output (spikeSamples s) g \<and>
         (\<forall>h < hiddenSize s. \<forall>p < poolSize s.
            mem output ! (hiddenSize s + (p + poolSize s * h)) =
              mem (spikeSamples s') ! h / slabPenalty s *
                (\<Sum>v = 0..<visibleSize s. elem (slice s h) v p * mem input ! v))"
proof -
  let ?H = "hiddenSize s" and ?P = "poolSize s"
  let ?o0 = "set_size out (?H + ?P * ?H) 1"
  let ?sm = "SpikeMean s input (view (mem ?o0) 0 ?H 1)"
  let ?o1 = "?o0\<lparr>mem := store (mem ?o0) 0 (mem ?sm)\<rparr>"
  let ?sl = "SlabMean s input (spikeSamples s') (view (mem ?o1) ?H ?P ?H)"
  have eq: "(spikeSamples s', g') = SampleSpike rs s (view (mem ?o1) 0 ?H 1) (spikeSamples s) g"
    and out: "output = ?o1\<lparr>mem := store (mem ?o1) ?H (mem ?sl)\<rparr>"
    using assms(3) by (auto simp: HiddenMean_eq Let_def split: prod.splits)
  have lsm: "length (mem ?sm) = ?H"
    by (simp add: length_view)
  have lsl: "length (mem ?sl) = ?P * ?H"
    by (simp add: length_view)
  have shape: "has_shape output (?H + ?P * ?H) 1"
    by (simp add: out has_shape_def)
  have spike: "mem output ! h = mem ?sm ! h" if "h < ?H" for h
    using that lsm by (simp add: out nth_store)
  have mean: "mem output ! h = mem (SpikeMean s input (spikeMean s)) ! h" if "h < ?H" for h
  proof -
    have "?H \<le> length (mem (spikeMean s))"
      using assms(1) by (simp add: initialized_def has_shape_def)
    then have "mem (SpikeMean s input (spikeMean s)) ! h = mem ?sm ! h"
      using that lsm by (simp add: SpikeMean_raw length_view)
    then show ?thesis
      using spike[OF that] by simp
  qed
  have "SampleSpike rs s (view (mem ?o1) 0 ?H 1) (spikeSamples s) g =
        SampleSpike rs s output (spikeSamples s) g"
  proof (rule SampleSpike_cong)
    fix i assume i: "i < ?H"
    then have "mem (view (mem ?o1) 0 ?H 1) ! i = mem ?sm ! i"
      using lsm by (simp add: view_def nth_store)
    then show "mem (view (mem ?o1) 0 ?H 1) ! i = mem output ! i"
      using spike[OF i] by simp
  qed
  then have sample: "(spikeSamples s', g') = SampleSpike rs s output (spikeSamples s) g"
    using eq by simp
  have slab: "mem output ! (?H + (p + ?P * h)) =
              mem (spikeSamples s') ! h / slabPenalty s *
                (\<Sum>v = 0..<visibleSize s. elem (slice s h) v p * mem input ! v)"
    if "h < ?H" "p < ?P" for h p
  proof -
    have lt: "p + ?P * h < ?P * ?H"
      using that(2,1) by (rule idx_less)
    have sh: "has_shape (view (mem ?o1) ?H ?P ?H) ?P ?H"
      by (simp add: has_shape_def length_view)
    have "mem output ! (?H + (p + ?P * h)) = mem ?sl ! (p + ?P * h)"
      using lt lsl by (simp add: out nth_store)
    also have "\<dots> = elem ?sl p h"
      using shape_SlabMean[OF sh, of s input "spikeSamples s'"]
      by (simp add: elem_def has_shape_def)
    also have "\<dots> = mem (spikeSamples s') ! h / slabPenalty s *
                (\<Sum>v = 0..<visibleSize s. elem (slice s h) v p * mem input ! v)"
      using assms(1,2) sh that by (rule SlabMean_elem)
    finally show ?thesis .
  qed
  show ?thesis
    using shape mean sample slab by simp
qed

theorem HiddenMean_sampled_spike_witness:
  "initialized example_rbm \<and> has_shape example_visible (visibleSize example_rbm) 1 \<and>
   mem (fst (HiddenMean const_source example_rbm example_visible empty_mat ())) ! 2 = 1 \<and>
   mem (fst (HiddenMean zero_source example_rbm example_visible empty_mat ())) ! 2 = 0"
proof -
  let ?c = "HiddenMean const_source example_rbm example_visible empty_mat ()"
  let ?z = "HiddenMean zero_source example_rbm example_visible empty_mat ()"
  have v: "visibleSize example_rbm = 2" "hiddenSize example_rbm = 2" "poolSize example_rbm = 1"
    by (simp_all add: example_rbm_def)
  have h0: "0 < hiddenSize example_rbm" and p0: "0 < poolSize example_rbm"
    by (simp_all add: example_rbm_def)
  have pc: "?c = (fst ?c, fst (snd ?c), snd (snd ?c))"
    by (simp only: prod.collapse)
  have pz: "?z = (fst ?z, fst (snd ?z), snd (snd ?z))"
    by (simp only: prod.collapse)
  note tc = HiddenMean_sampled_spike[OF initialized_example shape_example_visible pc]
  note tz = HiddenMean_sampled_spike[OF initialized_example shape_example_visible pz]
  have w: "(\<Sum>v = 0..<visibleSize example_rbm.
              elem (slice example_rbm 0) v 0 * mem example_visible ! v) = 1"
    by (simp add: example_rbm_def example_visible_def slice_def slice_of_def view_def
          elem_def numeral_2_eq_2)
  have sc: "mem (fst (SampleSpike const_source example_rbm (fst ?c)
                        (spikeSamples example_rbm) ())) ! 0 = 1"
    by (simp add: SampleSpike_def v numeral_2_eq_2 const_source_def set_elem_def
          example_rbm_def)
  have sz: "mem (fst (SampleSpike zero_source example_rbm (fst ?z)
                        (spikeSamples example_rbm) ())) ! 0 = 0"
    by (simp add: SampleSpike_def v numeral_2_eq_2 zero_source_def set_elem_def
          example_rbm_def)
  have c1: "mem (spikeSamples (fst (snd ?c))) ! 0 = 1"
    using tc[THEN conjunct2, THEN conjunct2, THEN conjunct1] sc
    by (metis fst_conv)
  have z1: "mem (spikeSamples (fst (snd ?z))) ! 0 = 0"
    using tz[THEN conjunct2, THEN conjunct2, THEN conjunct1] sz
    by (metis fst_conv)
  have "mem (fst ?c) ! (hiddenSize example_rbm + (0 + poolSize example_rbm * 0)) =
        mem (spikeSamples (fst (snd ?c))) ! 0 / slabPenalty example_rbm *
          (\<Sum>v = 0..<visibleSize example_rbm.
              elem (slice example_rbm 0) v 0 * mem example_visible ! v)"
    by (rule tc[THEN conjunct2, THEN conjunct2, THEN conjunct2, rule_format, OF h0 p0])
  then have c: "mem (fst ?c) ! 2 = 1"
    by (simp add: w c1) (simp add: example_rbm_def)
  have "mem (fst ?z) ! (hiddenSize example_rbm + (0 + poolSize example_rbm * 0)) =
        mem (spikeSamples (fst (snd ?z))) ! 0 / slabPenalty example_rbm *
          (\<Sum>v = 0..<visibleSize example_rbm.
              elem (slice example_rbm 0) v 0 * mem example_visible ! v)"
    by (rule tz[THEN conjunct2, THEN conjunct2, THEN conjunct2, rule_format, OF h0 p0])
  then have z: "mem (fst ?z) ! 2 = 0"
    by (simp add: w z1) (simp add: example_rbm_def)
  show ?thesis
    using initialized_example shape_example_visible c z by (intro conjI)
qed

section \<open>Sampling the visible layer\<close>

declare trials.simps [simp del]

lemma normal_draws_snoc:
  "normal_draws rs (ms @ [m]) var g =
     (let (xs, g1) = normal_draws rs ms var g;
          (x, g2) = RandNormal rs m var g1
      in (xs @ [x], g2))"
  by (induction ms arbitrary: g) (simp_all add: Let_def case_prod_unfold)

lemma length_normal_draws [simp]: "length (fst (normal_draws rs ms var g)) = length ms"
  by (induction ms arbitrary: g) (simp_all add: Let_def case_prod_unfold)

lemma draw_loop_normal:
  assumes "n \<le> length ms" and "n \<le> length (mem out)"
  shows "for_loop n
           (\<lambda>i (output, g). let (x, g') = RandNormal rs (ms ! i) var g
                            in (set_elem output i x, g'))
           (out, g) =
         (out\<lparr>mem := fst (normal_draws rs (take n ms) var g) @ drop n (mem out)\<rparr>,
          snd (normal_draws rs (take n ms) var g))"
  using assms
proof (induction n)
  case 0
  then show ?case by simp
next
  case (Suc n)
  let ?d = "normal_draws rs (take n ms) var g"
  have t: "take (Suc n) ms = take n ms @ [ms ! n]"
    using Suc.prems(1) by (simp add: take_Suc_conv_app_nth)
  have len: "length (fst ?d) = n"
    using Suc.prems(1) by simp
  have upd: "(fst ?d @ drop n (mem out))[n := x] = (fst ?d @ [x]) @ drop (Suc n) (mem out)" for x
  proof -
    have "drop n (mem out) = mem out ! n # drop (Suc n) (mem out)"
      using Suc.prems(2) by (simp add: Cons_nth_drop_Suc)
    then show ?thesis
      using len by (simp add: list_update_append)
  qed
  have IH: "for_loop n
           (\<lambda>i (output, g). let (x, g') = RandNormal rs (ms ! i) var g
                            in (set_elem output i x, g'))
           (out, g) = (out\<lparr>mem := fst ?d @ drop n (mem out)\<rparr>, snd ?d)"
    using Suc.prems by (intro Suc.IH) simp_all
  let ?body = "\<lambda>i (output, g). let (x, g') = RandNormal rs (ms ! i) var g
                              in (set_elem output i x, g')"
  have "for_loop (Suc n) ?body (out, g) = ?body n (for_loop n ?body (out, g))"
    by simp
  also have "\<dots> = ?body n (out\<lparr>mem := fst ?d @ drop n (mem out)\<rparr>, snd ?d)"
    by (simp only: IH)
  also have "\<dots> =
      (out\<lparr>mem := fst (normal_draws rs (take (Suc n) ms) var g) @ drop (Suc n) (mem out)\<rparr>,
       snd (normal_draws rs (take (Suc n) ms) var g))"
    by (simp add: t normal_draws_snoc set_elem_def upd Let_def case_prod_unfold)
  finally show ?case .
qed

lemma draw_visible_normal:
  assumes "length (mem (visibleMean s)) = visibleSize s"
    and "length (mem out) = visibleSize s"
  shows "draw_visible rs s (out, g) =
         (out\<lparr>mem := fst (normal_draws rs (mem (visibleMean s))
                          (1 / visiblePenalty_at s 0) g)\<rparr>,
          snd (normal_draws rs (mem (visibleMean s)) (1 / visiblePenalty_at s 0) g))"
  using draw_loop_normal[of "visibleSize s" "mem (visibleMean s)" out rs
      "1 / visiblePenalty_at s 0" g] assms
  by (simp add: draw_visible_def)

lemma trials_attempts:
  assumes "k < numMaxTrials"
  shows "\<exists>n. 1 \<le> n \<and> k + n \<le> numMaxTrials \<and>
           snd (trials rs s k og) = (draw_visible rs s ^^ n) og \<and>
           (\<forall>j. 1 \<le> j \<and> j < n \<longrightarrow>
                \<not> norm2 (fst ((draw_visible rs s ^^ j) og)) < radius s) \<and>
           (if norm2 (fst ((draw_visible rs s ^^ n) og)) < radius s
            then fst (trials rs s k og) = k + n - 1
            else k + n = numMaxTrials \<and> fst (trials rs s k og) = numMaxTrials)"
  using assms
proof (induction rs s k og rule: trials.induct)
  case (1 rs s k og)
  let ?A = "draw_visible rs s"
  show ?case
  proof (cases "norm2 (fst (?A og)) < radius s")
    case True
    then have "trials rs s k og = (k, ?A og)"
      using "1.prems" by (simp add: trials.simps[of rs s k og] Let_def)
    then show ?thesis
      using True "1.prems" by (intro exI[of _ 1]) simp
  next
    case fail: False
    then have rec: "trials rs s k og = trials rs s (Suc k) (?A og)"
      using "1.prems" by (simp add: trials.simps[of rs s k og] Let_def)
    show ?thesis
    proof (cases "Suc k < numMaxTrials")
      case True
      from "1.IH"[OF "1.prems" refl fail True]
      obtain n where n: "1 \<le> n" "Suc k + n \<le> numMaxTrials"
        "snd (trials rs s (Suc k) (?A og)) = (?A ^^ n) (?A og)"
        "\<forall>j. 1 \<le> j \<and> j < n \<longrightarrow> \<not> norm2 (fst ((?A ^^ j) (?A og))) < radius s"
        "if norm2 (fst ((?A ^^ n) (?A og))) < radius s
         then fst (trials rs s (Suc k) (?A og)) = Suc k + n - 1
         else Suc k + n = numMaxTrials \<and> fst (trials rs s (Suc k) (?A og)) = numMaxTrials"
        by blast
      have sw: "(?A ^^ j) (?A og) = (?A ^^ Suc j) og" for j
        by (simp add: funpow_swap1)
      have early: "\<not> norm2 (fst ((?A ^^ j) og)) < radius s"
        if j1: "1 \<le> j" and j2: "j < Suc n" for j
      proof (cases "j = 1")
        case True
        then show ?thesis using fail by simp
      next
        case False
        then obtain i where i: "j = Suc i" "1 \<le> i" "i < n"
          using j1 j2 by (cases j) auto
        have "\<not> norm2 (fst ((?A ^^ i) (?A og))) < radius s"
          using n(4) i(2,3) by blast
        then show ?thesis
          unfolding i(1) sw[of i] .
      qed
      have s1: "snd (trials rs s k og) = (?A ^^ Suc n) og"
        using n(3) by (simp only: rec sw)
      have s2: "if norm2 (fst ((?A ^^ Suc n) og)) < radius s
                then fst (trials rs s k og) = k + Suc n - 1
                else k + Suc n = numMaxTrials \<and> fst (trials rs s k og) = numMaxTrials"
        using n(5) unfolding rec sw by (simp split: if_splits)
      have s3: "\<forall>j. 1 \<le> j \<and> j < Suc n \<longrightarrow> \<not> norm2 (fst ((?A ^^ j) og)) < radius s"
        using early by blast
      have s4: "1 \<le> Suc n" "k + Suc n \<le> numMaxTrials"
        using n(2) by simp_all
      show ?thesis
        using s1 s2 s3 s4 by (intro exI[of _ "Suc n"] conjI)
    next
      case last: False
      then have "trials rs s (Suc k) (?A og) = (Suc k, ?A og)"
        by (simp add: trials.simps[of rs s "Suc k" "?A og"])
      then show ?thesis
        using fail last "1.prems" by (intro exI[of _ 1]) (simp add: rec)
    qed
  qed
qed

lemma numMaxTrials_pos: "0 < numMaxTrials"
  by (simp add: numMaxTrials_def)

text \<open>
  Claim C2. \<open>SampleVisible\<close> stores the visible mean of the hidden input in the member
  \<open>visibleMean\<close> and then makes \<open>n\<close> attempts, \<open>1 \<le> n \<le> numMaxTrials = 10\<close>. An attempt
  draws coordinate \<open>i\<close> of the output from \<open>RandNormal(visibleMean[i], 1 / \<alpha>)\<close>, one
  coordinate after the other. Every attempt before the last has norm at least \<open>radius\<close>.
  If the returned vector has norm below \<open>radius\<close> no warning is added; otherwise all
  \<open>numMaxTrials\<close> attempts were made, exactly one warning is added and the last draw is
  returned.
\<close>

theorem SampleVisible_attempts:
  assumes "initialized s"
    and "SampleVisible rs s input out g warn = (output, s', g', warn')"
  shows "s' = s\<lparr>visibleMean := VisibleMean s input (visibleMean s)\<rparr> \<and>
         numMaxTrials = 10 \<and>
         (\<forall>out0 g0. length (mem out0) = visibleSize s \<longrightarrow>
            draw_visible rs s' (out0, g0) =
              (out0\<lparr>mem := fst (normal_draws rs (mem (visibleMean s'))
                                 (1 / visiblePenalty_at s 0) g0)\<rparr>,
               snd (normal_draws rs (mem (visibleMean s')) (1 / visiblePenalty_at s 0) g0))) \<and>
         (\<exists>n. 1 \<le> n \<and> n \<le> numMaxTrials \<and>
            (output, g') = (draw_visible rs s' ^^ n) (set_size out (visibleSize s) 1, g) \<and>
            (\<forall>j. 1 \<le> j \<and> j < n \<longrightarrow>
               \<not> norm2 (fst ((draw_visible rs s' ^^ j) (set_size out (visibleSize s) 1, g)))
                   < radius s) \<and>
            (norm2 output < radius s \<longrightarrow> warn' = warn) \<and>
            (\<not> norm2 output < radius s \<longrightarrow>
               n = numMaxTrials \<and> warn' = warn @ [norm2 output]))"
proof -
  let ?s1 = "s\<lparr>visibleMean := VisibleMean s input (visibleMean s)\<rparr>"
  let ?og = "(set_size out (visibleSize s) 1, g)"
  let ?A = "draw_visible rs ?s1"
  let ?t = "trials rs ?s1 0 ?og"
  have res: "s' = ?s1" "output = fst (snd ?t)" "g' = snd (snd ?t)"
    "warn' = (if fst ?t = numMaxTrials then warn @ [norm2 (fst (snd ?t))] else warn)"
    using assms(2) by (auto simp: SampleVisible_def Let_def split: prod.splits if_splits)
  have vm: "length (mem (visibleMean ?s1)) = visibleSize ?s1"
    using shape_VisibleMean[OF assms(1), of input "visibleMean s"]
    by (simp add: has_shape_def)
  have draws: "draw_visible rs s' (out0, g0) =
              (out0\<lparr>mem := fst (normal_draws rs (mem (visibleMean s'))
                                 (1 / visiblePenalty_at s 0) g0)\<rparr>,
               snd (normal_draws rs (mem (visibleMean s')) (1 / visiblePenalty_at s 0) g0))"
    if "length (mem out0) = visibleSize s" for out0 g0
    using draw_visible_normal[OF vm, of out0 rs g0] that
    by (simp add: res(1) visiblePenalty_at_def)
  obtain n where n: "1 \<le> n" "0 + n \<le> numMaxTrials" "snd ?t = (?A ^^ n) ?og"
    "\<forall>j. 1 \<le> j \<and> j < n \<longrightarrow> \<not> norm2 (fst ((?A ^^ j) ?og)) < radius ?s1"
    "if norm2 (fst ((?A ^^ n) ?og)) < radius ?s1 then fst ?t = 0 + n - 1
     else 0 + n = numMaxTrials \<and> fst ?t = numMaxTrials"
    using trials_attempts[OF numMaxTrials_pos, of rs ?s1 ?og] by blast
  have o: "(output, g') = (?A ^^ n) ?og"
    using n(3) by (simp add: res(2,3))
  have early: "\<forall>j. 1 \<le> j \<and> j < n \<longrightarrow> \<not> norm2 (fst ((?A ^^ j) ?og)) < radius s"
    using n(4) by simp
  have nf: "norm2 (fst ((?A ^^ n) ?og)) = norm2 output"
    using o by (metis fst_conv)
  have ok: "warn' = warn" if "norm2 output < radius s"
  proof -
    have "fst ?t = n - 1"
      using n(5) that nf by simp
    then have "fst ?t \<noteq> numMaxTrials"
      using n(1,2) by simp
    then show ?thesis
      by (simp add: res(4))
  qed
  have bad: "n = numMaxTrials \<and> warn' = warn @ [norm2 output]" if "\<not> norm2 output < radius s"
  proof -
    have "n = numMaxTrials \<and> fst ?t = numMaxTrials"
      using n(5) that nf by simp
    then show ?thesis
      by (simp add: res(2,4))
  qed
  have "\<exists>n. 1 \<le> n \<and> n \<le> numMaxTrials \<and>
            (output, g') = (draw_visible rs s' ^^ n) (set_size out (visibleSize s) 1, g) \<and>
            (\<forall>j. 1 \<le> j \<and> j < n \<longrightarrow>
               \<not> norm2 (fst ((draw_visible rs s' ^^ j) (set_size out (visibleSize s) 1, g)))
                   < radius s) \<and>
            (norm2 output < radius s \<longrightarrow> warn' = warn) \<and>
            (\<not> norm2 output < radius s \<longrightarrow>
               n = numMaxTrials \<and> warn' = warn @ [norm2 output])"
    using n(1,2) o early ok bad unfolding res(1) by (intro exI[of _ n]) simp
  then show ?thesis
    using res(1) draws by (simp add: numMaxTrials_def)
qed

lemma normal_draws_const: "normal_draws const_source ms var g = (ms, g)"
  by (induction ms arbitrary: g) (simp_all add: const_source_def)

lemma list_of_two: "length xs = 2 \<Longrightarrow> xs = [xs ! 0, xs ! 1]"
  by (cases xs; cases "tl xs") auto

lemma example_visibleMean:
  "mem (VisibleMean example_rbm example_hidden (visibleMean example_rbm)) = [2, 3]"
proof -
  let ?m = "VisibleMean example_rbm example_hidden (visibleMean example_rbm)"
  have v: "0 < visibleSize example_rbm" "1 < visibleSize example_rbm"
    by (simp_all add: example_rbm_def)
  have "length (mem ?m) = 2"
    using shape_VisibleMean[OF initialized_example, of example_hidden "visibleMean example_rbm"]
    by (simp add: has_shape_def example_rbm_def)
  then have "mem ?m = [mem ?m ! 0, mem ?m ! 1]"
    by (rule list_of_two)
  moreover have "mem ?m ! 0 = 2"
    unfolding VisibleMean_nth[OF initialized_example shape_example_hidden v(1)]
    by (simp add: example_rbm_def example_hidden_def slice_def slice_of_def view_def
          elem_def visiblePenalty_at_def numeral_2_eq_2)
  moreover have "mem ?m ! 1 = 3"
    unfolding VisibleMean_nth[OF initialized_example shape_example_hidden v(2)]
    by (simp add: example_rbm_def example_hidden_def slice_def slice_of_def view_def
          elem_def visiblePenalty_at_def numeral_2_eq_2)
  ultimately show ?thesis
    by simp
qed

lemma funpow_const_draw:
  assumes "\<And>out0 g0. length (mem out0) = L \<Longrightarrow> A (out0, g0) = (out0\<lparr>mem := ms\<rparr>, g0)"
    and "length ms = L" and "length (mem out) = L" and "1 \<le> n"
  shows "(A ^^ n) (out, g) = (out\<lparr>mem := ms\<rparr>, g)"
  using assms(4)
proof (induction n)
  case 0
  then show ?case by simp
next
  case (Suc n)
  show ?case
  proof (cases "n = 0")
    case True
    then show ?thesis
      using assms(1)[OF assms(3)] by simp
  next
    case False
    then have "(A ^^ n) (out, g) = (out\<lparr>mem := ms\<rparr>, g)"
      using Suc.IH by simp
    then show ?thesis
      using assms(1)[of "out\<lparr>mem := ms\<rparr>" g] assms(2) by simp
  qed
qed

theorem SampleVisible_attempts_witness:
  "initialized example_rbm \<and>
   mem (fst (SampleVisible const_source example_rbm example_hidden empty_mat () [])) = [2, 3] \<and>
   \<not> sqrt 13 < radius example_rbm \<and>
   snd (snd (snd (SampleVisible const_source example_rbm example_hidden empty_mat () []))) =
     [sqrt 13]"
proof -
  let ?r = "SampleVisible const_source example_rbm example_hidden empty_mat () []"
  let ?s' = "fst (snd ?r)"
  let ?A = "draw_visible const_source ?s'"
  let ?o = "set_size empty_mat (visibleSize example_rbm) 1"
  have p: "?r = (fst ?r, ?s', fst (snd (snd ?r)), snd (snd (snd ?r)))"
    by (simp only: prod.collapse)
  note t = SampleVisible_attempts[OF initialized_example p]
  have s': "?s' = example_rbm
              \<lparr>visibleMean := VisibleMean example_rbm example_hidden (visibleMean example_rbm)\<rparr>"
    by (rule t[THEN conjunct1])
  have vm: "mem (visibleMean ?s') = [2, 3]"
    by (simp add: s' example_visibleMean)
  have A: "?A (out0, g0) = (out0\<lparr>mem := [2, 3]\<rparr>, g0)"
    if "length (mem out0) = 2" for out0 g0
  proof -
    have "length (mem out0) = visibleSize example_rbm"
      using that by (simp add: example_rbm_def)
    then show ?thesis
      using t[THEN conjunct2, THEN conjunct2, THEN conjunct1, rule_format, of out0 g0]
      by (simp only: vm normal_draws_const fst_conv snd_conv)
  qed
  have lo: "length (mem ?o) = 2"
    by (simp add: example_rbm_def)
  obtain n where n: "1 \<le> n" "(fst ?r, fst (snd (snd ?r))) = (?A ^^ n) (?o, ())"
    "\<not> norm2 (fst ?r) < radius example_rbm \<longrightarrow>
       n = numMaxTrials \<and> snd (snd (snd ?r)) = [] @ [norm2 (fst ?r)]"
    using t[THEN conjunct2, THEN conjunct2, THEN conjunct2] by blast
  have "(?A ^^ n) (?o, ()) = (?o\<lparr>mem := [2, 3]\<rparr>, ())"
    using A lo n(1) by (intro funpow_const_draw[where L = 2]) simp_all
  then have out: "fst ?r = ?o\<lparr>mem := [2, 3]\<rparr>"
    using n(2) by simp
  have nrm: "norm2 (fst ?r) = sqrt 13"
    by (simp add: out norm2_def)
  have "sqrt 4 \<le> sqrt 13"
    by (rule real_sqrt_le_mono) simp
  then have far: "\<not> sqrt 13 < radius example_rbm"
    by (simp add: example_rbm_def)
  then have "snd (snd (snd ?r)) = [sqrt 13]"
    using n(3) nrm by simp
  then show ?thesis
    using initialized_example out far by simp
qed

section \<open>The operations keep the store initialized\<close>

text \<open>
  \<open>Reset\<close> establishes \<open>initialized\<close> (lemma \<open>initialized_Reset\<close>: the initializer must
  keep the shape of the buffer and the bias and penalty views must lie in it), and \<open>Phase\<close>,
  \<open>HiddenMean\<close> and \<open>SampleVisible\<close> keep it.
\<close>

lemma shape_SampleSpike:
  "has_shape spike r c \<Longrightarrow> has_shape (fst (SampleSpike rs s mean spike g)) r c"
proof -
  have "n_rows (fst (for_loop n
          (\<lambda>i (spike, g). let (x, g') = RandBernoulli rs (mem mean ! i) g
                          in (set_elem spike i x, g')) (spike, g))) = n_rows spike \<and>
        n_cols (fst (for_loop n
          (\<lambda>i (spike, g). let (x, g') = RandBernoulli rs (mem mean ! i) g
                          in (set_elem spike i x, g')) (spike, g))) = n_cols spike \<and>
        length (mem (fst (for_loop n
          (\<lambda>i (spike, g). let (x, g') = RandBernoulli rs (mem mean ! i) g
                          in (set_elem spike i x, g')) (spike, g)))) = length (mem spike)" for n
    by (induction n) (simp_all add: case_prod_unfold Let_def)
  then show "has_shape spike r c \<Longrightarrow> has_shape (fst (SampleSpike rs s mean spike g)) r c"
    by (simp add: has_shape_def SampleSpike_def)
qed

lemma initialized_members:
  assumes "initialized s"
    and "parameter s' = parameter s" and "weight s' = weight s"
    and "visibleSize s' = visibleSize s" and "hiddenSize s' = hiddenSize s"
    and "poolSize s' = poolSize s" and "reset s' = reset s"
    and "weightCube s' = weightCube s" and "spikeBias s' = spikeBias s"
    and "visiblePenalty s' = visiblePenalty s"
    and "has_shape (visibleMean s') (visibleSize s) 1"
    and "has_shape (spikeMean s') (hiddenSize s) 1"
    and "has_shape (spikeSamples s') (hiddenSize s) 1"
    and "has_shape (slabMean s') (poolSize s) (hiddenSize s)"
  shows "initialized s'"
  using assms by (simp add: initialized_def shape_of_def)

lemma initialized_Phase:
  assumes "initialized s" and "Phase rs s input gradient g = (gradient', s', g')"
  shows "initialized s'"
proof -
  note st = Phase_state[OF assms(2)]
  have m: "has_shape (visibleMean s) (visibleSize s) 1" "has_shape (spikeMean s) (hiddenSize s) 1"
    "has_shape (spikeSamples s) (hiddenSize s) 1"
    "has_shape (slabMean s) (poolSize s) (hiddenSize s)"
    using assms(1) by (simp_all add: initialized_def)
  have same: "parameter s' = parameter s" "weight s' = weight s"
    "visibleSize s' = visibleSize s" "hiddenSize s' = hiddenSize s"
    "poolSize s' = poolSize s" "reset s' = reset s" "weightCube s' = weightCube s"
    "spikeBias s' = spikeBias s" "visiblePenalty s' = visiblePenalty s"
    "visibleMean s' = visibleMean s"
    using assms(2) by (auto simp: Phase_def Let_def split: prod.splits)
  have "spikeSamples s' = fst (SampleSpike rs s (spikeMean s') (spikeSamples s) g)"
    using st by (metis fst_conv)
  then have a: "has_shape (spikeSamples s') (hiddenSize s) 1"
    using shape_SampleSpike[OF m(3), of rs s "spikeMean s'" g] by simp
  have b: "has_shape (spikeMean s') (hiddenSize s) 1"
    using st m(2) by (simp add: shape_SpikeMean)
  have c: "has_shape (slabMean s') (poolSize s) (hiddenSize s)"
    using st m(4) by (simp add: shape_SlabMean)
  have d: "has_shape (visibleMean s') (visibleSize s) 1"
    using m(1) by (simp add: same)
  show ?thesis
    by (rule initialized_members[OF assms(1) same(1-9) d b a c])
qed

lemma HiddenMean_state:
  "\<exists>mean. fst (snd (HiddenMean rs s input out g)) =
           s\<lparr>spikeSamples := fst (SampleSpike rs s mean (spikeSamples s) g)\<rparr>"
  by (simp add: HiddenMean_eq Let_def case_prod_unfold) blast

lemma initialized_HiddenMean:
  assumes "initialized s" and "HiddenMean rs s input out g = (output, s', g')"
  shows "initialized s'"
proof -
  have m: "has_shape (visibleMean s) (visibleSize s) 1" "has_shape (spikeMean s) (hiddenSize s) 1"
    "has_shape (spikeSamples s) (hiddenSize s) 1"
    "has_shape (slabMean s) (poolSize s) (hiddenSize s)"
    using assms(1) by (simp_all add: initialized_def)
  obtain mean where "fst (snd (HiddenMean rs s input out g)) =
      s\<lparr>spikeSamples := fst (SampleSpike rs s mean (spikeSamples s) g)\<rparr>"
    using HiddenMean_state[of rs s input out g] by (elim exE)
  then have s': "s' = s\<lparr>spikeSamples := fst (SampleSpike rs s mean (spikeSamples s) g)\<rparr>"
    by (simp add: assms(2))
  show ?thesis
    unfolding s'
    using m shape_SampleSpike[OF m(3), of rs s mean g]
    by (intro initialized_members[OF assms(1)]) simp_all
qed

lemma initialized_SampleVisible:
  assumes "initialized s" and "SampleVisible rs s input out g warn = (output, s', g', warn')"
  shows "initialized s'"
proof -
  have m: "has_shape (spikeMean s) (hiddenSize s) 1"
    "has_shape (spikeSamples s) (hiddenSize s) 1"
    "has_shape (slabMean s) (poolSize s) (hiddenSize s)"
    using assms(1) by (simp_all add: initialized_def)
  have s': "s' = s\<lparr>visibleMean := VisibleMean s input (visibleMean s)\<rparr>"
    using assms(2) by (auto simp: SampleVisible_def Let_def split: prod.splits if_splits)
  show ?thesis
    unfolding s'
    using m shape_VisibleMean[OF assms(1), of input "visibleMean s"]
    by (intro initialized_members[OF assms(1)]) simp_all
qed

end
